theory Spec2Isabelle
  imports Complex_Main
begin

section \<open>Values of the Python program\<close>

text \<open>
  The debate runner (\<^verbatim>\<open>debate_experiment.py\<close>) is embedded function by function.
  Python exceptions are values of \<open>error\<close>; a function that can raise returns
  \<open>error + 'a\<close> with \<open>Inl\<close> for the exception. Strings are \<open>char list\<close>s, one
  \<open>char\<close> per code point. Floats (the cost) are modelled by the reals; wall-clock
  durations are left out of the records, nothing below depends on them.
\<close>

datatype error =
    BackendError        \<comment> \<open>the chat-completion request of \<^verbatim>\<open>call_model\<close> raised\<close>
  | FileNotFoundError   \<comment> \<open>\<^verbatim>\<open>load_prompt\<close> on a missing file\<close>
  | TypeError           \<comment> \<open>\<^verbatim>\<open>str.replace\<close> with \<^verbatim>\<open>None\<close>, membership test of an unhashable value\<close>
  | AttributeError      \<comment> \<open>\<^verbatim>\<open>.get\<close> on a decoded value that is not a dict\<close>

text \<open>The result of \<^verbatim>\<open>json.loads\<close>: a dict is an association list in insertion order.\<close>

datatype json =
    JNull
  | JBool bool
  | JInt int
  | JFloat real
  | JStr string
  | JArr "json list"
  | JObj "(string \<times> json) list"

type_synonym pydict = "(string \<times> json) list"

text \<open>Truth value of a Python object, as \<^verbatim>\<open>not x\<close>, \<^verbatim>\<open>x or y\<close> and \<^verbatim>\<open>if x\<close> read it.\<close>

fun truthy :: "json \<Rightarrow> bool" where
  "truthy JNull = False"
| "truthy (JBool b) = b"
| "truthy (JInt n) = (n \<noteq> 0)"
| "truthy (JFloat r) = (r \<noteq> 0)"
| "truthy (JStr s) = (s \<noteq> [])"
| "truthy (JArr xs) = (xs \<noteq> [])"
| "truthy (JObj kvs) = (kvs \<noteq> [])"

definition py_or :: "json \<Rightarrow> json \<Rightarrow> json" where
  "py_or x y = (if truthy x then x else y)"

text \<open>Lists and dicts have no hash; a set membership test on them raises.\<close>

fun hashable :: "json \<Rightarrow> bool" where
  "hashable (JArr xs) = False"
| "hashable (JObj kvs) = False"
| "hashable v = True"

text \<open>\<^verbatim>\<open>d.get(k)\<close>, \<^verbatim>\<open>d.get(k, default)\<close> and \<^verbatim>\<open>d[k] = v\<close>.\<close>

definition py_get :: "pydict \<Rightarrow> string \<Rightarrow> json" where
  "py_get d k = (case map_of d k of None \<Rightarrow> JNull | Some v \<Rightarrow> v)"

definition py_get_default :: "pydict \<Rightarrow> string \<Rightarrow> json \<Rightarrow> json" where
  "py_get_default d k dflt = (case map_of d k of None \<Rightarrow> dflt | Some v \<Rightarrow> v)"

fun dict_set :: "('k \<times> 'v) list \<Rightarrow> 'k \<Rightarrow> 'v \<Rightarrow> ('k \<times> 'v) list" where
  "dict_set [] k v = [(k, v)]"
| "dict_set ((k', v') # d) k v =
     (if k' = k then (k, v) # d else (k', v') # dict_set d k v)"

section \<open>Usage extraction\<close>

text \<open>
  \<^verbatim>\<open>response.usage.model_dump()\<close> is a dict of counters, or \<^verbatim>\<open>None\<close> when the backend
  sent no usage. The entries \<^verbatim>\<open>extract_usage_fields\<close> reads are numbers or \<^verbatim>\<open>None\<close>.
\<close>

datatype uval = UNull | UInt int | UFloat real

type_synonym usage = "(string \<times> uval) list"

fun utruthy :: "uval \<Rightarrow> bool" where
  "utruthy UNull = False"
| "utruthy (UInt n) = (n \<noteq> 0)"
| "utruthy (UFloat r) = (r \<noteq> 0)"

definition usage_get :: "usage \<Rightarrow> string \<Rightarrow> uval" where
  "usage_get u k = (case map_of u k of None \<Rightarrow> UNull | Some v \<Rightarrow> v)"

text \<open>\<^verbatim>\<open>float(x or 0.0)\<close> and \<^verbatim>\<open>int(x or 0)\<close>; \<^verbatim>\<open>int\<close> of a float truncates towards zero.\<close>

definition float_or_zero :: "uval \<Rightarrow> real" where
  "float_or_zero x =
     (if utruthy x then (case x of UInt n \<Rightarrow> of_int n | UFloat r \<Rightarrow> r | UNull \<Rightarrow> 0) else 0)"

definition int_or_zero :: "uval \<Rightarrow> int" where
  "int_or_zero x =
     (if utruthy x
      then (case x of UInt n \<Rightarrow> n
                    | UFloat r \<Rightarrow> (if 0 \<le> r then \<lfloor>r\<rfloor> else \<lceil>r\<rceil>)
                    | UNull \<Rightarrow> 0)
      else 0)"

record usage_fields =
  uf_cost :: real
  uf_completion_tokens :: int
  uf_prompt_tokens :: int
  uf_total_tokens :: int
  uf_reasoning :: string
  uf_reasoning_tokens :: int

definition extract_usage_fields :: "usage option \<Rightarrow> usage_fields" where
  "extract_usage_fields usage =
     (case usage of
        None \<Rightarrow> \<lparr>uf_cost = 0, uf_completion_tokens = 0, uf_prompt_tokens = 0,
                 uf_total_tokens = 0, uf_reasoning = [], uf_reasoning_tokens = 0\<rparr>
      | Some u \<Rightarrow>
          if u = [] then
            \<lparr>uf_cost = 0, uf_completion_tokens = 0, uf_prompt_tokens = 0,
             uf_total_tokens = 0, uf_reasoning = [], uf_reasoning_tokens = 0\<rparr>
          else
            let cost = usage_get u ''total_cost'';
                cost = (if cost = UNull
                        then (case map_of u ''cost'' of None \<Rightarrow> UFloat 0 | Some v \<Rightarrow> v)
                        else cost)
            in \<lparr>uf_cost = float_or_zero cost,
                uf_completion_tokens = int_or_zero (usage_get u ''completion_tokens''),
                uf_prompt_tokens = int_or_zero (usage_get u ''prompt_tokens''),
                uf_total_tokens = int_or_zero (usage_get u ''total_tokens''),
                uf_reasoning = [],
                uf_reasoning_tokens = int_or_zero (usage_get u ''reasoning_tokens'')\<rparr>)"

section \<open>Strings\<close>

text \<open>The decimal form \<^verbatim>\<open>str(n)\<close> that the f-strings insert.\<close>

fun digits :: "nat \<Rightarrow> string" where
  "digits n =
     (if n < 10 then [''0123456789'' ! n]
      else digits (n div 10) @ [''0123456789'' ! (n mod 10)])"

declare digits.simps [simp del]

definition str_int :: "int \<Rightarrow> string" where
  "str_int i = (if i < 0 then CHR ''-'' # digits (nat (- i)) else digits (nat i))"

text \<open>\<^verbatim>\<open>sep.join(parts)\<close>.\<close>

fun join :: "string \<Rightarrow> string list \<Rightarrow> string" where
  "join sep [] = []"
| "join sep [x] = x"
| "join sep (x # y # ys) = x @ sep @ join sep (y # ys)"

text \<open>\<^verbatim>\<open>s.startswith(p)\<close>.\<close>

definition startswith :: "string \<Rightarrow> string \<Rightarrow> bool" where
  "startswith s p = (take (length p) s = p)"

text \<open>
  \<^verbatim>\<open>s.replace(old, new)\<close> for a non-empty \<open>old\<close>: the occurrences are found from the left
  and do not overlap. The patterns of \<^verbatim>\<open>render_prompt\<close> begin with two braces, so
  they are never empty.
\<close>

fun replace :: "string \<Rightarrow> string \<Rightarrow> string \<Rightarrow> string" where
  "replace [] old new = []"
| "replace (c # cs) old new =
     (if old \<noteq> [] \<and> startswith (c # cs) old
      then new @ replace (drop (length old) (c # cs)) old new
      else c # replace cs old new)"

text \<open>The characters \<^verbatim>\<open>str.strip()\<close> removes, among the first 256 code points.\<close>

definition is_space :: "char \<Rightarrow> bool" where
  "is_space c = ((of_char c :: nat) \<in> {9, 10, 11, 12, 13, 28, 29, 30, 31, 32, 133, 160})"

definition lstrip :: "string \<Rightarrow> string" where
  "lstrip s = dropWhile is_space s"

definition strip :: "string \<Rightarrow> string" where
  "strip s = rev (dropWhile is_space (rev (dropWhile is_space s)))"

definition strip_backticks :: "string \<Rightarrow> string" where
  "strip_backticks s =
     rev (dropWhile (\<lambda>c. c = CHR 0x60) (rev (dropWhile (\<lambda>c. c = CHR 0x60) s)))"

section \<open>Backend calls and prompts\<close>

record message =
  msg_role :: string
  msg_content :: string

text \<open>What the backend answers: the first choice's content and the usage, either may be \<^verbatim>\<open>None\<close>.\<close>

record response =
  resp_content :: "string option"
  resp_usage :: "usage option"

text \<open>
  A client answers a request (model name, messages) or the request raises. Every client
  of a run receives pairwise different requests or is called once, so a function of the
  request describes any behaviour of the backend during one run.
\<close>

type_synonym client = "string \<Rightarrow> message list \<Rightarrow> error + response"

record call_result =
  cr_model :: string
  cr_content :: "string option"
  cr_usage :: "usage option"

definition call_model :: "client \<Rightarrow> string \<Rightarrow> message list \<Rightarrow> error + call_result" where
  "call_model client model messages =
     (case client model messages of
        Inl e \<Rightarrow> Inl e
      | Inr response \<Rightarrow>
          Inr \<lparr>cr_model = model, cr_content = resp_content response,
               cr_usage = resp_usage response\<rparr>)"

text \<open>
  The collaborators outside the program: the prompt files (\<^verbatim>\<open>None\<close> for a missing
  file), \<^verbatim>\<open>json.loads\<close> (\<^verbatim>\<open>None\<close> when it raises \<^verbatim>\<open>JSONDecodeError\<close>) and the
  identifier that \<^verbatim>\<open>nanoid.generate\<close> returns.
\<close>

record env =
  prompt_files :: "string \<Rightarrow> string option"
  json_loads :: "string \<Rightarrow> json option"
  generate :: string

definition load_prompt :: "env \<Rightarrow> string \<Rightarrow> error + string" where
  "load_prompt e name =
     (case prompt_files e name of None \<Rightarrow> Inl FileNotFoundError | Some t \<Rightarrow> Inr t)"

text \<open>
  \<^verbatim>\<open>render_prompt\<close>: one \<^verbatim>\<open>replace\<close> per variable, in the dict's order. A value that is
  \<^verbatim>\<open>None\<close> makes \<^verbatim>\<open>str.replace\<close> raise.
\<close>

fun render_prompt :: "string \<Rightarrow> (string \<times> string option) list \<Rightarrow> error + string" where
  "render_prompt result [] = Inr result"
| "render_prompt result ((key, val) # variables) =
     (case val of
        None \<Rightarrow> Inl TypeError
      | Some v \<Rightarrow> render_prompt (replace result (''{{'' @ key @ ''}}'') v) variables)"

text \<open>The f-string form of an optional content: \<^verbatim>\<open>None\<close> prints as the word.\<close>

definition fmt_content :: "string option \<Rightarrow> string" where
  "fmt_content c = (case c of None \<Rightarrow> ''None'' | Some s \<Rightarrow> s)"

definition merge_responses :: "call_result list \<Rightarrow> string" where
  "merge_responses history =
     join [CHR 0x0A, CHR 0x0A]
       (map (\<lambda>(i, item). ''Round '' @ str_int (int i + 1) @ '':'' @ [CHR 0x0A] @ fmt_content (cr_content item))
            (enumerate 0 history))"

definition build_opponent_variables ::
  "int \<Rightarrow> call_result list \<Rightarrow> string \<Rightarrow> (string \<times> string option) list" where
  "build_opponent_variables round_index opponent_history opponent_label =
     (if round_index \<le> 1 then []
      else let target_index = round_index - 2 in
        if target_index \<ge> int (length opponent_history) then []
        else [(opponent_label @ ''_ROUND_'' @ str_int (round_index - 1),
               cr_content (opponent_history ! nat target_index))])"

text \<open>\<^verbatim>\<open>d.update(other)\<close>.\<close>

definition dict_update :: "('k \<times> 'v) list \<Rightarrow> ('k \<times> 'v) list \<Rightarrow> ('k \<times> 'v) list" where
  "dict_update d other = foldl (\<lambda>acc (k, v). dict_set acc k v) d other"

section \<open>Jury evaluation\<close>

definition clean_jury_text :: "string \<Rightarrow> string" where
  "clean_jury_text text =
     (let cleaned = strip text in
      if startswith cleaned [CHR 0x60, CHR 0x60, CHR 0x60] then
        (let cleaned = strip_backticks cleaned in
         if startswith cleaned ''json'' then lstrip (drop 4 cleaned) else cleaned)
      else cleaned)"

definition parse_jury_response :: "env \<Rightarrow> string \<Rightarrow> json" where
  "parse_jury_response e text =
     (if text = [] then JObj []
      else (case json_loads e (clean_jury_text text) of
              Some v \<Rightarrow> v
            | None \<Rightarrow> JObj []))"

record side_map =
  sm_A :: string
  sm_B :: string

record jury_call =
  jc_judge_model :: string
  jc_side_map :: side_map
  jc_prompt :: string
  jc_raw_response :: "string option"
  jc_usage :: "usage option"

text \<open>The side map and the rendered judge prompt (the swap of the two transcripts when blind).\<close>

definition judge_request ::
  "string \<Rightarrow> string \<Rightarrow> string \<Rightarrow> call_result list \<Rightarrow> call_result list \<Rightarrow> bool
     \<Rightarrow> error + (side_map \<times> string)" where
  "judge_request judge_template topic conditions history_a history_b blind =
     (let side_a_text = merge_responses history_a;
          side_b_text = merge_responses history_b;
          smap = \<lparr>sm_A = ''A'', sm_B = ''B''\<rparr>;
          (side_a_text, side_b_text, smap) =
             (if blind then (side_b_text, side_a_text, \<lparr>sm_A = ''B'', sm_B = ''A''\<rparr>)
              else (side_a_text, side_b_text, smap))
      in case render_prompt judge_template
                [(''TOPIC'', Some topic), (''CONDITIONS'', Some conditions),
                 (''SIDE_A_TEXT'', Some side_a_text), (''SIDE_B_TEXT'', Some side_b_text)] of
           Inl err \<Rightarrow> Inl err
         | Inr rendered_prompt \<Rightarrow> Inr (smap, rendered_prompt))"

definition judge_messages :: "string \<Rightarrow> message list" where
  "judge_messages rendered_prompt =
     [\<lparr>msg_role = ''system'', msg_content = ''You are a neutral debate judge.''\<rparr>,
      \<lparr>msg_role = ''user'', msg_content = rendered_prompt\<rparr>]"

definition run_jury_evaluation ::
  "env \<Rightarrow> client \<Rightarrow> string \<Rightarrow> string \<Rightarrow> string \<Rightarrow> call_result list \<Rightarrow> call_result list \<Rightarrow> bool
     \<Rightarrow> error + jury_call" where
  "run_jury_evaluation e client judge_model topic conditions history_a history_b blind =
     (case load_prompt e ''judge/judge_evaluation.txt'' of
        Inl err \<Rightarrow> Inl err
      | Inr judge_template \<Rightarrow>
     (case judge_request judge_template topic conditions history_a history_b blind of
        Inl err \<Rightarrow> Inl err
      | Inr (smap, rendered_prompt) \<Rightarrow>
     (case call_model client judge_model (judge_messages rendered_prompt) of
        Inl err \<Rightarrow> Inl err
      | Inr result \<Rightarrow>
          Inr \<lparr>jc_judge_model = judge_model, jc_side_map = smap, jc_prompt = rendered_prompt,
               jc_raw_response = cr_content result, jc_usage = cr_usage result\<rparr>)))"

definition remap_winner :: "json \<Rightarrow> side_map \<Rightarrow> json" where
  "remap_winner raw_winner smap =
     (if raw_winner = JStr ''Side A'' then JStr (''Side '' @ sm_A smap)
      else if raw_winner = JStr ''Side B'' then JStr (''Side '' @ sm_B smap)
      else py_or raw_winner (JStr ''''))"

definition normalize_jury_scores :: "pydict \<Rightarrow> side_map \<Rightarrow> pydict" where
  "normalize_jury_scores parsed smap =
     (if sm_A smap = ''A'' then parsed
      else [(''total_score_A'', py_get parsed ''total_score_B''),
            (''total_score_B'', py_get parsed ''total_score_A''),
            (''detailed_scores_A'', py_get parsed ''detailed_scores_B''),
            (''detailed_scores_B'', py_get parsed ''detailed_scores_A''),
            (''winner'', py_get parsed ''winner''),
            (''reasoning'', py_get parsed ''reasoning''),
            (''general'', py_get parsed ''general'')])"

text \<open>
  \<^verbatim>\<open>is_valid_jury\<close>. The test \<^verbatim>\<open>winner not in {"Side A", "Side B"}\<close> hashes the winner, so
  a winner that is a list or a dict raises \<^verbatim>\<open>TypeError\<close>.
\<close>

definition is_valid_jury :: "pydict \<Rightarrow> error + bool" where
  "is_valid_jury parsed =
     (if parsed = [] then Inr False
      else if \<not> hashable (py_get parsed ''winner'') then Inl TypeError
      else if py_get parsed ''winner'' \<notin> {JStr ''Side A'', JStr ''Side B''} then Inr False
      else Inr (py_get parsed ''total_score_A'' \<noteq> JNull \<and> py_get parsed ''total_score_B'' \<noteq> JNull))"

section \<open>The debate run\<close>

record round_entry =
  re_id :: int
  re_side :: string
  re_prompt :: string
  re_content :: string
  re_cost :: real
  re_completion_tokens :: int
  re_prompt_tokens :: int
  re_total_tokens :: int
  re_reasoning :: string
  re_reasoning_tokens :: int

record jury_entry =
  je_model :: string
  je_prompt :: string
  je_content :: string
  je_cost :: real
  je_completion_tokens :: int
  je_prompt_tokens :: int
  je_total_tokens :: int
  je_reasoning :: string
  je_reasoning_tokens :: int
  je_blind :: bool
  je_side_map :: side_map

text \<open>The local variables of \<^verbatim>\<open>run_debate\<close> that its two loops update.\<close>

record run_state =
  history_a :: "call_result list"
  history_b :: "call_result list"
  messages_a :: "message list"
  messages_b :: "message list"
  rounds_log :: "round_entry list"
  total_cost :: real
  total_completion_tokens :: int
  total_prompt_tokens :: int
  total_tokens :: int
  total_reasoning_tokens :: int
  jury_results :: "jury_entry list"
  jury_parsed_list :: "pydict list"

record judge_config =
  cfg_model :: string
  cfg_backend :: string
  cfg_base_url :: string
  cfg_requires_api_key :: bool
  cfg_client :: client

definition rounds :: "string list" where
  "rounds = [''round1_opening.txt'', ''round2_rebuttal.txt'',
             ''round3_assumptions.txt'', ''round4_closing.txt'']"

text \<open>\<^verbatim>\<open>x or ""\<close> for an optional string.\<close>

definition or_empty :: "string option \<Rightarrow> string" where
  "or_empty c = (case c of None \<Rightarrow> [] | Some s \<Rightarrow> s)"

definition add_usage :: "usage_fields \<Rightarrow> run_state \<Rightarrow> run_state" where
  "add_usage uf s =
     s\<lparr>total_cost := total_cost s + uf_cost uf,
       total_completion_tokens := total_completion_tokens s + uf_completion_tokens uf,
       total_prompt_tokens := total_prompt_tokens s + uf_prompt_tokens uf,
       total_tokens := total_tokens s + uf_total_tokens uf,
       total_reasoning_tokens := total_reasoning_tokens s + uf_reasoning_tokens uf\<rparr>"

definition log_entry :: "int \<Rightarrow> string \<Rightarrow> string \<Rightarrow> call_result \<Rightarrow> round_entry" where
  "log_entry i side prompt result =
     (let uf = extract_usage_fields (cr_usage result) in
      \<lparr>re_id = i, re_side = side, re_prompt = prompt,
       re_content = or_empty (cr_content result),
       re_cost = uf_cost uf,
       re_completion_tokens = uf_completion_tokens uf,
       re_prompt_tokens = uf_prompt_tokens uf,
       re_total_tokens = uf_total_tokens uf,
       re_reasoning = uf_reasoning uf,
       re_reasoning_tokens = uf_reasoning_tokens uf\<rparr>)"

text \<open>Side A's half of the loop body: the variables read side B's history as it is then.\<close>

definition turn_a ::
  "client \<Rightarrow> string \<Rightarrow> string \<Rightarrow> string \<Rightarrow> int \<Rightarrow> string \<Rightarrow> run_state \<Rightarrow> error + run_state" where
  "turn_a client_a model_a topic conditions i round_template_a s =
     (let variables_a =
            dict_update [(''TOPIC'', Some topic), (''CONDITIONS'', Some conditions)]
              (build_opponent_variables i (history_b s) ''MODEL_B'')
      in case render_prompt round_template_a variables_a of
           Inl err \<Rightarrow> Inl err
         | Inr prompt_a \<Rightarrow>
      let msgs = messages_a s @ [\<lparr>msg_role = ''user'', msg_content = prompt_a\<rparr>]
      in case call_model client_a model_a msgs of
           Inl err \<Rightarrow> Inl err
         | Inr result_a \<Rightarrow>
             Inr (add_usage (extract_usage_fields (cr_usage result_a))
                   (s\<lparr>history_a := history_a s @ [result_a],
                      messages_a := msgs @ [\<lparr>msg_role = ''assistant'',
                                             msg_content = or_empty (cr_content result_a)\<rparr>],
                      rounds_log := rounds_log s @ [log_entry i ''A'' prompt_a result_a]\<rparr>)))"

text \<open>Side B's half: it runs after side A's, whose history already holds round \<open>i\<close>.\<close>

definition turn_b ::
  "client \<Rightarrow> string \<Rightarrow> string \<Rightarrow> string \<Rightarrow> int \<Rightarrow> string \<Rightarrow> run_state \<Rightarrow> error + run_state" where
  "turn_b client_b model_b topic conditions i round_template_b s =
     (let variables_b =
            dict_update [(''TOPIC'', Some topic), (''CONDITIONS'', Some conditions)]
              (build_opponent_variables i (history_a s) ''MODEL_A'')
      in case render_prompt round_template_b variables_b of
           Inl err \<Rightarrow> Inl err
         | Inr prompt_b \<Rightarrow>
      let msgs = messages_b s @ [\<lparr>msg_role = ''user'', msg_content = prompt_b\<rparr>]
      in case call_model client_b model_b msgs of
           Inl err \<Rightarrow> Inl err
         | Inr result_b \<Rightarrow>
             Inr (add_usage (extract_usage_fields (cr_usage result_b))
                   (s\<lparr>history_b := history_b s @ [result_b],
                      messages_b := msgs @ [\<lparr>msg_role = ''assistant'',
                                             msg_content = or_empty (cr_content result_b)\<rparr>],
                      rounds_log := rounds_log s @ [log_entry i ''B'' prompt_b result_b]\<rparr>)))"

definition run_round ::
  "env \<Rightarrow> client \<Rightarrow> client \<Rightarrow> string \<Rightarrow> string \<Rightarrow> string \<Rightarrow> string \<Rightarrow> int \<Rightarrow> string
     \<Rightarrow> run_state \<Rightarrow> error + run_state" where
  "run_round e client_a client_b model_a model_b topic conditions i round_file s =
     (case load_prompt e (''model_a/'' @ round_file) of
        Inl err \<Rightarrow> Inl err
      | Inr round_template_a \<Rightarrow>
     (case load_prompt e (''model_b/'' @ round_file) of
        Inl err \<Rightarrow> Inl err
      | Inr round_template_b \<Rightarrow>
     (case turn_a client_a model_a topic conditions i round_template_a s of
        Inl err \<Rightarrow> Inl err
      | Inr s' \<Rightarrow> turn_b client_b model_b topic conditions i round_template_b s')))"

text \<open>\<^verbatim>\<open>for i, round_file in enumerate(rounds, start=1)\<close>; an exception leaves the loop.\<close>

fun round_loop ::
  "env \<Rightarrow> client \<Rightarrow> client \<Rightarrow> string \<Rightarrow> string \<Rightarrow> string \<Rightarrow> string \<Rightarrow> int \<Rightarrow> string list
     \<Rightarrow> run_state \<Rightarrow> error + run_state" where
  "round_loop e client_a client_b model_a model_b topic conditions i [] s = Inr s"
| "round_loop e client_a client_b model_a model_b topic conditions i (round_file # files) s =
     (case run_round e client_a client_b model_a model_b topic conditions i round_file s of
        Inl err \<Rightarrow> Inl err
      | Inr s' \<Rightarrow> round_loop e client_a client_b model_a model_b topic conditions (i + 1) files s')"

definition initial_state :: "string \<Rightarrow> run_state" where
  "initial_state system_prompt =
     \<lparr>history_a = [], history_b = [],
      messages_a = [\<lparr>msg_role = ''system'', msg_content = system_prompt\<rparr>],
      messages_b = [\<lparr>msg_role = ''system'', msg_content = system_prompt\<rparr>],
      rounds_log = [],
      total_cost = 0, total_completion_tokens = 0, total_prompt_tokens = 0,
      total_tokens = 0, total_reasoning_tokens = 0,
      jury_results = [], jury_parsed_list = []\<rparr>"

text \<open>The first part of \<^verbatim>\<open>run_debate\<close>, up to the end of the four rounds.\<close>

definition debate_rounds ::
  "env \<Rightarrow> client \<Rightarrow> client \<Rightarrow> string \<Rightarrow> string \<Rightarrow> string \<Rightarrow> string \<Rightarrow> error + run_state" where
  "debate_rounds e client_a client_b model_a model_b topic conditions =
     (case load_prompt e ''system.txt'' of
        Inl err \<Rightarrow> Inl err
      | Inr system_prompt \<Rightarrow>
          round_loop e client_a client_b model_a model_b topic conditions 1 rounds
            (initial_state system_prompt))"

text \<open>
  What one pass of the judge loop computes before it touches the accumulators: the usage
  fields, the judge call and the de-blinded verdict, \<^verbatim>\<open>None\<close> where the loop says
  \<^verbatim>\<open>continue\<close>. A decoded value that is not a dict has no \<^verbatim>\<open>get\<close>.
\<close>

definition evaluate_judge ::
  "env \<Rightarrow> string \<Rightarrow> string \<Rightarrow> call_result list \<Rightarrow> call_result list \<Rightarrow> bool \<Rightarrow> judge_config
     \<Rightarrow> error + (usage_fields \<times> jury_call \<times> pydict option)" where
  "evaluate_judge e topic conditions hist_a hist_b blind_jury cfg =
     (case run_jury_evaluation e (cfg_client cfg) (cfg_model cfg) topic conditions
             hist_a hist_b blind_jury of
        Inl err \<Rightarrow> Inl err
      | Inr jury_result \<Rightarrow>
          let uf = extract_usage_fields (jc_usage jury_result) in
          (case parse_jury_response e (or_empty (jc_raw_response jury_result)) of
             JObj jury_parsed_raw \<Rightarrow>
               let remapped_winner =
                     remap_winner (py_get_default jury_parsed_raw ''winner'' (JStr ''''))
                       (jc_side_map jury_result);
                   jury_parsed_raw = dict_set jury_parsed_raw ''winner'' remapped_winner;
                   jury_parsed = normalize_jury_scores jury_parsed_raw (jc_side_map jury_result)
               in (case is_valid_jury jury_parsed of
                     Inl err \<Rightarrow> Inl err
                   | Inr valid \<Rightarrow>
                       Inr (uf, jury_result, if valid then Some jury_parsed else None))
           | _ \<Rightarrow> Inl AttributeError))"

definition judge_step ::
  "env \<Rightarrow> string \<Rightarrow> string \<Rightarrow> bool \<Rightarrow> judge_config \<Rightarrow> run_state \<Rightarrow> error + run_state" where
  "judge_step e topic conditions blind_jury cfg s =
     (case evaluate_judge e topic conditions (history_a s) (history_b s) blind_jury cfg of
        Inl err \<Rightarrow> Inl err
      | Inr (uf, jury_result, verdict) \<Rightarrow>
          let s1 = add_usage uf s in
          (case verdict of
             None \<Rightarrow> Inr s1
           | Some jury_parsed \<Rightarrow>
               Inr (s1\<lparr>jury_results := jury_results s1 @
                          [\<lparr>je_model = cfg_model cfg,
                            je_prompt = jc_prompt jury_result,
                            je_content = or_empty (jc_raw_response jury_result),
                            je_cost = uf_cost uf,
                            je_completion_tokens = uf_completion_tokens uf,
                            je_prompt_tokens = uf_prompt_tokens uf,
                            je_total_tokens = uf_total_tokens uf,
                            je_reasoning = uf_reasoning uf,
                            je_reasoning_tokens = uf_reasoning_tokens uf,
                            je_blind = blind_jury,
                            je_side_map = jc_side_map jury_result\<rparr>],
                       jury_parsed_list := jury_parsed_list s1 @ [jury_parsed]\<rparr>)))"

fun jury_loop ::
  "env \<Rightarrow> string \<Rightarrow> string \<Rightarrow> bool \<Rightarrow> judge_config list \<Rightarrow> run_state \<Rightarrow> error + run_state" where
  "jury_loop e topic conditions blind_jury [] s = Inr s"
| "jury_loop e topic conditions blind_jury (cfg # cfgs) s =
     (case judge_step e topic conditions blind_jury cfg s of
        Inl err \<Rightarrow> Inl err
      | Inr s' \<Rightarrow> jury_loop e topic conditions blind_jury cfgs s')"

section \<open>Winner aggregation and the record\<close>

definition winners :: "pydict list \<Rightarrow> json list" where
  "winners parsed_list =
     map (\<lambda>item. py_get item ''winner'')
       (filter (\<lambda>item. truthy (py_get item ''winner'')) parsed_list)"

record winner_counts =
  side_a_count :: int
  side_b_count :: int

definition count_winners :: "pydict list \<Rightarrow> winner_counts" where
  "count_winners parsed_list =
     \<lparr>side_a_count = int (count_list (winners parsed_list) (JStr ''Side A'')),
      side_b_count = int (count_list (winners parsed_list) (JStr ''Side B''))\<rparr>"

definition final_winner :: "pydict list \<Rightarrow> string" where
  "final_winner parsed_list =
     (let wc = count_winners parsed_list in
      if winners parsed_list \<noteq> []
      then (if side_a_count wc \<ge> side_b_count wc then ''Side A'' else ''Side B'')
      else '''')"

text \<open>
  The scan for the representative texts: the first verdict whose winner is the final
  winner decides both, then \<^verbatim>\<open>break\<close>; an empty or missing text leaves the empty string.
\<close>

fun representative :: "string \<Rightarrow> pydict list \<Rightarrow> json \<times> json" where
  "representative fw [] = (JStr '''', JStr '''')"
| "representative fw (parsed # rest) =
     (if py_get parsed ''winner'' = JStr fw
      then (py_or (py_get_default parsed ''reasoning'' (JStr '''')) (JStr ''''),
            py_or (py_get_default parsed ''general'' (JStr '''')) (JStr ''''))
      else representative fw rest)"

record evaluation =
  ev_juries :: "jury_entry list"
  ev_parsed :: "pydict list"
  ev_winner_counts :: winner_counts

record result =
  res_general :: json
  res_winner :: string
  res_winning_reason :: json

record debate_record =
  rec_id :: string
  rec_topic :: string
  rec_conditions :: string
  rec_lang :: string
  rec_proposition :: string
  rec_opposition :: string
  rec_jury :: string
  rec_rounds :: "round_entry list"
  rec_evaluation :: evaluation
  rec_result :: result
  rec_total_cost :: real
  rec_total_completion_tokens :: int
  rec_total_prompt_tokens :: int
  rec_total_tokens :: int
  rec_total_reasoning_tokens :: int

text \<open>
  The record that the end of \<^verbatim>\<open>run_debate\<close> assembles. The set of seen identifiers is
  empty there, so \<^verbatim>\<open>unique_id\<close> returns the first identifier generated.
\<close>

definition build_record ::
  "env \<Rightarrow> judge_config list \<Rightarrow> string \<Rightarrow> string \<Rightarrow> string \<Rightarrow> string \<Rightarrow> run_state \<Rightarrow> debate_record" where
  "build_record e judge_configs model_a model_b topic conditions s =
     (let fw = final_winner (jury_parsed_list s);
          (winner_reason, general_summary) = representative fw (jury_parsed_list s)
      in \<lparr>rec_id = generate e,
          rec_topic = topic,
          rec_conditions = conditions,
          rec_lang = ''en'',
          rec_proposition = model_a,
          rec_opposition = model_b,
          rec_jury = join '','' (map cfg_model judge_configs),
          rec_rounds = rounds_log s,
          rec_evaluation =
            \<lparr>ev_juries = jury_results s, ev_parsed = jury_parsed_list s,
             ev_winner_counts = count_winners (jury_parsed_list s)\<rparr>,
          rec_result =
            \<lparr>res_general = general_summary, res_winner = fw,
             res_winning_reason = winner_reason\<rparr>,
          rec_total_cost = total_cost s,
          rec_total_completion_tokens = total_completion_tokens s,
          rec_total_prompt_tokens = total_prompt_tokens s,
          rec_total_tokens = total_tokens s,
          rec_total_reasoning_tokens = total_reasoning_tokens s\<rparr>)"

text \<open>The output file is the list of its lines; \<^verbatim>\<open>save_jsonl\<close> appends one line per record.\<close>

definition save_jsonl :: "debate_record list \<Rightarrow> debate_record list \<Rightarrow> debate_record list" where
  "save_jsonl records file = file @ records"

text \<open>
  \<^verbatim>\<open>run_debate\<close> on an output file: the file afterwards, and the exception that ended the
  run if one did. No exception is caught anywhere in the function.
\<close>

definition run_debate ::
  "env \<Rightarrow> client \<Rightarrow> client \<Rightarrow> judge_config list \<Rightarrow> string \<Rightarrow> string \<Rightarrow> string \<Rightarrow> string \<Rightarrow> bool
     \<Rightarrow> debate_record list \<Rightarrow> debate_record list \<times> error option" where
  "run_debate e client_a client_b judge_configs model_a model_b topic conditions blind_jury file =
     (case debate_rounds e client_a client_b model_a model_b topic conditions of
        Inl err \<Rightarrow> (file, Some err)
      | Inr s \<Rightarrow>
     (case jury_loop e topic conditions blind_jury judge_configs s of
        Inl err \<Rightarrow> (file, Some err)
      | Inr s' \<Rightarrow>
          (save_jsonl [build_record e judge_configs model_a model_b topic conditions s'] file,
           None)))"

section \<open>A concrete run\<close>

text \<open>
  Inputs on which the statements below are evaluated: prompt files that exist, two
  debaters that always answer, and judges that answer with a fixed text or not at all.
  The decoder knows the four judge payloads used here and rejects every other text.
\<close>

definition verdict_text_1 :: string where
  \<open>verdict_text_1 =
     ''{"winner":"Side A","total_score_A":18,"total_score_B":12,"reasoning":"first","general":"g1"}''\<close>

definition verdict_text_2 :: string where
  \<open>verdict_text_2 =
     ''{"winner":"Side A","total_score_A":17,"total_score_B":11,"reasoning":"second","general":"g2"}''\<close>

definition verdict_text_3 :: string where
  \<open>verdict_text_3 =
     ''{"winner":"Side B","total_score_A":10,"total_score_B":15,"reasoning":"third","general":"g3"}''\<close>

definition list_winner_text :: string where
  \<open>list_winner_text = ''{"winner":["Side A"],"total_score_A":18,"total_score_B":12}''\<close>

definition verdict_1 :: pydict where
  "verdict_1 = [(''winner'', JStr ''Side A''), (''total_score_A'', JInt 18),
                (''total_score_B'', JInt 12), (''reasoning'', JStr ''first''),
                (''general'', JStr ''g1'')]"

definition verdict_2 :: pydict where
  "verdict_2 = [(''winner'', JStr ''Side A''), (''total_score_A'', JInt 17),
                (''total_score_B'', JInt 11), (''reasoning'', JStr ''second''),
                (''general'', JStr ''g2'')]"

definition verdict_3 :: pydict where
  "verdict_3 = [(''winner'', JStr ''Side B''), (''total_score_A'', JInt 10),
                (''total_score_B'', JInt 15), (''reasoning'', JStr ''third''),
                (''general'', JStr ''g3'')]"

definition list_winner_verdict :: pydict where
  "list_winner_verdict = [(''winner'', JArr [JStr ''Side A'']), (''total_score_A'', JInt 18),
                          (''total_score_B'', JInt 12)]"

definition demo_loads :: "string \<Rightarrow> json option" where
  "demo_loads s =
     (if s = verdict_text_1 then Some (JObj verdict_1)
      else if s = verdict_text_2 then Some (JObj verdict_2)
      else if s = verdict_text_3 then Some (JObj verdict_3)
      else if s = list_winner_text then Some (JObj list_winner_verdict)
      else None)"

definition demo_env :: env where
  "demo_env = \<lparr>prompt_files = (\<lambda>name. Some ''{{TOPIC}}''), json_loads = demo_loads,
                generate = ''0123456789abcdef''\<rparr>"

definition demo_debater :: client where
  "demo_debater model messages = Inr \<lparr>resp_content = Some ''arg'', resp_usage = None\<rparr>"

definition judge_saying :: "string \<Rightarrow> judge_config" where
  "judge_saying text =
     \<lparr>cfg_model = ''judge'', cfg_backend = ''local'', cfg_base_url = ''http://localhost'',
      cfg_requires_api_key = False,
      cfg_client = (\<lambda>model messages. Inr \<lparr>resp_content = Some text, resp_usage = None\<rparr>)\<rparr>"

definition judge_down :: judge_config where
  "judge_down =
     \<lparr>cfg_model = ''judge'', cfg_backend = ''local'', cfg_base_url = ''http://localhost'',
      cfg_requires_api_key = False,
      cfg_client = (\<lambda>model messages. Inl BackendError)\<rparr>"

definition demo_result :: call_result where
  "demo_result = \<lparr>cr_model = ''m'', cr_content = Some ''arg'', cr_usage = None\<rparr>"

text \<open>The state of the concrete run when its four rounds are over.\<close>

definition demo_state :: run_state where
  "demo_state =
     \<lparr>history_a = [demo_result, demo_result, demo_result, demo_result],
      history_b = [demo_result, demo_result, demo_result, demo_result],
      messages_a =
        [\<lparr>msg_role = ''system'', msg_content = ''{{TOPIC}}''\<rparr>,
         \<lparr>msg_role = ''user'', msg_content = ''X''\<rparr>,
         \<lparr>msg_role = ''assistant'', msg_content = ''arg''\<rparr>,
         \<lparr>msg_role = ''user'', msg_content = ''X''\<rparr>,
         \<lparr>msg_role = ''assistant'', msg_content = ''arg''\<rparr>,
         \<lparr>msg_role = ''user'', msg_content = ''X''\<rparr>,
         \<lparr>msg_role = ''assistant'', msg_content = ''arg''\<rparr>,
         \<lparr>msg_role = ''user'', msg_content = ''X''\<rparr>,
         \<lparr>msg_role = ''assistant'', msg_content = ''arg''\<rparr>],
      messages_b =
        [\<lparr>msg_role = ''system'', msg_content = ''{{TOPIC}}''\<rparr>,
         \<lparr>msg_role = ''user'', msg_content = ''X''\<rparr>,
         \<lparr>msg_role = ''assistant'', msg_content = ''arg''\<rparr>,
         \<lparr>msg_role = ''user'', msg_content = ''X''\<rparr>,
         \<lparr>msg_role = ''assistant'', msg_content = ''arg''\<rparr>,
         \<lparr>msg_role = ''user'', msg_content = ''X''\<rparr>,
         \<lparr>msg_role = ''assistant'', msg_content = ''arg''\<rparr>,
         \<lparr>msg_role = ''user'', msg_content = ''X''\<rparr>,
         \<lparr>msg_role = ''assistant'', msg_content = ''arg''\<rparr>],
      rounds_log =
        [log_entry 1 ''A'' ''X'' demo_result, log_entry 1 ''B'' ''X'' demo_result,
         log_entry 2 ''A'' ''X'' demo_result, log_entry 2 ''B'' ''X'' demo_result,
         log_entry 3 ''A'' ''X'' demo_result, log_entry 3 ''B'' ''X'' demo_result,
         log_entry 4 ''A'' ''X'' demo_result, log_entry 4 ''B'' ''X'' demo_result],
      total_cost = 0, total_completion_tokens = 0, total_prompt_tokens = 0,
      total_tokens = 0, total_reasoning_tokens = 0,
      jury_results = [], jury_parsed_list = []\<rparr>"

text \<open>A judge answer inside a code fence whose contents are not JSON.\<close>

definition fenced_garbage :: string where
  "fenced_garbage = [CHR 0x60, CHR 0x60, CHR 0x60] @ ''json'' @ [CHR 0x0A] @ ''oops'' @
                     [CHR 0x0A] @ [CHR 0x60, CHR 0x60, CHR 0x60]"

section \<open>A second concrete run, with placeholders in the templates\<close>







text \<open>
  A debater whose backend answers in its first \<open>n\<close> rounds and is down afterwards; in
  round \<open>k\<close> a debater is sent \<open>2 * k\<close> messages.
\<close>

definition debater_down_after :: "nat \<Rightarrow> client" where
  "debater_down_after n model messages =
     (if length messages \<le> 2 * n
      then Inr \<lparr>resp_content = Some ''arg'', resp_usage = None\<rparr>
      else Inl BackendError)"

section \<open>The verdicts of a judge loop\<close>

text \<open>
  The verdict that one pass of the judge loop appends, read off \<open>evaluate_judge\<close>;
  \<open>None\<close> for a pass that appends nothing. It is used to state what the loop leaves
  in \<open>jury_parsed_list\<close>.
\<close>

definition judge_verdict ::
  "env \<Rightarrow> string \<Rightarrow> string \<Rightarrow> call_result list \<Rightarrow> call_result list \<Rightarrow> bool \<Rightarrow> judge_config
     \<Rightarrow> pydict option" where
  "judge_verdict e topic conditions hist_a hist_b blind_jury cfg =
     (case evaluate_judge e topic conditions hist_a hist_b blind_jury cfg of
        Inl err \<Rightarrow> None
      | Inr (uf, jury_result, verdict) \<Rightarrow> verdict)"

section \<open>Dictionaries\<close>



lemma dict_set_not_empty: "dict_set d k v \<noteq> []"
  by (cases d) (auto split: if_splits)

section \<open>Evaluation of the concrete run\<close>


lemma demo_rounds:
  "debate_rounds demo_env demo_debater demo_debater ''m'' ''m'' ''X'' '''' = Inr demo_state"
  by (simp add: debate_rounds_def load_prompt_def demo_env_def rounds_def run_round_def
        turn_a_def turn_b_def build_opponent_variables_def dict_update_def startswith_def
        demo_debater_def call_model_def initial_state_def add_usage_def Let_def
        demo_state_def demo_result_def or_empty_def extract_usage_fields_def str_int_def
        digits.simps)

lemma clean_demo_texts:
  "clean_jury_text verdict_text_1 = verdict_text_1"
  "clean_jury_text verdict_text_2 = verdict_text_2"
  "clean_jury_text verdict_text_3 = verdict_text_3"
  "clean_jury_text list_winner_text = list_winner_text"
  by (simp_all add: clean_jury_text_def verdict_text_1_def verdict_text_2_def verdict_text_3_def
        list_winner_text_def strip_def is_space_def startswith_def)

lemma demo_texts_distinct:
  "verdict_text_1 \<noteq> []" "verdict_text_2 \<noteq> []" "verdict_text_3 \<noteq> []" "list_winner_text \<noteq> []"
  "verdict_text_2 \<noteq> verdict_text_1" "verdict_text_3 \<noteq> verdict_text_1"
  "verdict_text_3 \<noteq> verdict_text_2" "list_winner_text \<noteq> verdict_text_1"
  "list_winner_text \<noteq> verdict_text_2" "list_winner_text \<noteq> verdict_text_3"
  by (simp_all add: verdict_text_1_def verdict_text_2_def verdict_text_3_def list_winner_text_def)

lemma demo_parse:
  "parse_jury_response demo_env verdict_text_1 = JObj verdict_1"
  "parse_jury_response demo_env verdict_text_2 = JObj verdict_2"
  "parse_jury_response demo_env verdict_text_3 = JObj verdict_3"
  "parse_jury_response demo_env list_winner_text = JObj list_winner_verdict"
  by (simp_all add: parse_jury_response_def clean_demo_texts demo_texts_distinct demo_env_def
        demo_loads_def)

lemma demo_judge_call:
  "run_jury_evaluation demo_env (cfg_client (judge_saying t)) (cfg_model (judge_saying t))
      ''X'' '''' (history_a demo_state) (history_b demo_state) b =
   Inr \<lparr>jc_judge_model = ''judge'',
        jc_side_map = (if b then \<lparr>sm_A = ''B'', sm_B = ''A''\<rparr> else \<lparr>sm_A = ''A'', sm_B = ''B''\<rparr>),
        jc_prompt = ''X'', jc_raw_response = Some t, jc_usage = None\<rparr>"
  by (simp add: run_jury_evaluation_def load_prompt_def demo_env_def judge_request_def
        startswith_def judge_saying_def call_model_def Let_def)

section \<open>Usage of a call without usage payload\<close>

text \<open>
  Claim C10. A usage payload that is absent (\<^verbatim>\<open>None\<close>, or an empty dict) gives cost 0 and
  every token count 0. The function has no failing branch. A debater round logged from a
  call without usage carries the zeros, and adding the fields of a judge or debater call
  without usage leaves the run totals as they were.
\<close>

theorem extract_usage_fields_absent:
  "extract_usage_fields None =
     \<lparr>uf_cost = 0, uf_completion_tokens = 0, uf_prompt_tokens = 0,
      uf_total_tokens = 0, uf_reasoning = [], uf_reasoning_tokens = 0\<rparr> \<and>
   extract_usage_fields (Some []) = extract_usage_fields None \<and>
   log_entry i side prompt \<lparr>cr_model = m, cr_content = c, cr_usage = None\<rparr> =
     \<lparr>re_id = i, re_side = side, re_prompt = prompt, re_content = or_empty c,
      re_cost = 0, re_completion_tokens = 0, re_prompt_tokens = 0, re_total_tokens = 0,
      re_reasoning = [], re_reasoning_tokens = 0\<rparr> \<and>
   add_usage (extract_usage_fields None) s = s"
  by (simp add: extract_usage_fields_def log_entry_def add_usage_def)

section \<open>The rounds, one at a time\<close>

lemma add_usage_keeps [simp]:
  "history_a (add_usage uf s) = history_a s"
  "history_b (add_usage uf s) = history_b s"
  "rounds_log (add_usage uf s) = rounds_log s"
  "jury_results (add_usage uf s) = jury_results s"
  "jury_parsed_list (add_usage uf s) = jury_parsed_list s"
  by (simp_all add: add_usage_def)

lemma turn_a_result:
  assumes "turn_a ca ma topic cond i ta s = Inr s'"
  obtains p r where
    "render_prompt ta
       (dict_update [(''TOPIC'', Some topic), (''CONDITIONS'', Some cond)]
          (build_opponent_variables i (history_b s) ''MODEL_B'')) = Inr p"
    "history_a s' = history_a s @ [r]"
    "history_b s' = history_b s"
    "rounds_log s' = rounds_log s @ [log_entry i ''A'' p r]"
    "jury_results s' = jury_results s"
    "jury_parsed_list s' = jury_parsed_list s"
  using assms by (auto simp: turn_a_def Let_def split: sum.splits)

lemma turn_b_result:
  assumes "turn_b cb mb topic cond i tb s = Inr s'"
  obtains p r where
    "render_prompt tb
       (dict_update [(''TOPIC'', Some topic), (''CONDITIONS'', Some cond)]
          (build_opponent_variables i (history_a s) ''MODEL_A'')) = Inr p"
    "history_b s' = history_b s @ [r]"
    "history_a s' = history_a s"
    "rounds_log s' = rounds_log s @ [log_entry i ''B'' p r]"
    "jury_results s' = jury_results s"
    "jury_parsed_list s' = jury_parsed_list s"
  using assms by (auto simp: turn_b_def Let_def split: sum.splits)

lemma run_round_result:
  assumes "run_round e ca cb ma mb topic cond i f s = Inr s'"
  obtains ta tb pa pb ra rb where
    "load_prompt e (''model_a/'' @ f) = Inr ta"
    "load_prompt e (''model_b/'' @ f) = Inr tb"
    "render_prompt ta
       (dict_update [(''TOPIC'', Some topic), (''CONDITIONS'', Some cond)]
          (build_opponent_variables i (history_b s) ''MODEL_B'')) = Inr pa"
    "render_prompt tb
       (dict_update [(''TOPIC'', Some topic), (''CONDITIONS'', Some cond)]
          (build_opponent_variables i (history_a s @ [ra]) ''MODEL_A'')) = Inr pb"
    "history_a s' = history_a s @ [ra]"
    "history_b s' = history_b s @ [rb]"
    "rounds_log s' = rounds_log s @ [log_entry i ''A'' pa ra, log_entry i ''B'' pb rb]"
    "jury_results s' = jury_results s"
    "jury_parsed_list s' = jury_parsed_list s"
proof -
  from assms obtain ta tb s1 where
    ta: "load_prompt e (''model_a/'' @ f) = Inr ta" and
    tb: "load_prompt e (''model_b/'' @ f) = Inr tb" and
    a: "turn_a ca ma topic cond i ta s = Inr s1" and
    b: "turn_b cb mb topic cond i tb s1 = Inr s'"
    by (auto simp: run_round_def split: sum.splits)
  from a obtain pa ra where a':
    "render_prompt ta
       (dict_update [(''TOPIC'', Some topic), (''CONDITIONS'', Some cond)]
          (build_opponent_variables i (history_b s) ''MODEL_B'')) = Inr pa"
    "history_a s1 = history_a s @ [ra]" "history_b s1 = history_b s"
    "rounds_log s1 = rounds_log s @ [log_entry i ''A'' pa ra]"
    "jury_results s1 = jury_results s" "jury_parsed_list s1 = jury_parsed_list s"
    by (rule turn_a_result)
  from b obtain pb rb where b':
    "render_prompt tb
       (dict_update [(''TOPIC'', Some topic), (''CONDITIONS'', Some cond)]
          (build_opponent_variables i (history_a s1) ''MODEL_A'')) = Inr pb"
    "history_b s' = history_b s1 @ [rb]" "history_a s' = history_a s1"
    "rounds_log s' = rounds_log s1 @ [log_entry i ''B'' pb rb]"
    "jury_results s' = jury_results s1" "jury_parsed_list s' = jury_parsed_list s1"
    by (rule turn_b_result)
  show thesis
    using ta tb a' b' by (intro that [of ta tb pa ra pb rb]) simp_all
qed

section \<open>The four rounds\<close>

lemma initial_state_fields [simp]:
  "history_a (initial_state sp) = []" "history_b (initial_state sp) = []"
  "rounds_log (initial_state sp) = []" "jury_results (initial_state sp) = []"
  "jury_parsed_list (initial_state sp) = []"
  by (simp_all add: initial_state_def)

lemma debate_rounds_trace:
  assumes "debate_rounds e ca cb ma mb topic cond = Inr s"
  obtains ta1 tb1 pa1 pb1 ra1 rb1 ta2 tb2 pa2 pb2 ra2 rb2
          ta3 tb3 pa3 pb3 ra3 rb3 ta4 tb4 pa4 pb4 ra4 rb4 where
    "history_a s = [ra1, ra2, ra3, ra4]"
    "history_b s = [rb1, rb2, rb3, rb4]"
    "rounds_log s =
       [log_entry 1 ''A'' pa1 ra1, log_entry 1 ''B'' pb1 rb1,
        log_entry 2 ''A'' pa2 ra2, log_entry 2 ''B'' pb2 rb2,
        log_entry 3 ''A'' pa3 ra3, log_entry 3 ''B'' pb3 rb3,
        log_entry 4 ''A'' pa4 ra4, log_entry 4 ''B'' pb4 rb4]"
    "jury_results s = []" "jury_parsed_list s = []"
    "load_prompt e (''model_a/'' @ rounds ! 0) = Inr ta1"
    "load_prompt e (''model_b/'' @ rounds ! 0) = Inr tb1"
    "load_prompt e (''model_a/'' @ rounds ! 1) = Inr ta2"
    "load_prompt e (''model_b/'' @ rounds ! 1) = Inr tb2"
    "load_prompt e (''model_a/'' @ rounds ! 2) = Inr ta3"
    "load_prompt e (''model_b/'' @ rounds ! 2) = Inr tb3"
    "load_prompt e (''model_a/'' @ rounds ! 3) = Inr ta4"
    "load_prompt e (''model_b/'' @ rounds ! 3) = Inr tb4"
    "render_prompt ta1 (dict_update [(''TOPIC'', Some topic), (''CONDITIONS'', Some cond)]
        (build_opponent_variables 1 [] ''MODEL_B'')) = Inr pa1"
    "render_prompt tb1 (dict_update [(''TOPIC'', Some topic), (''CONDITIONS'', Some cond)]
        (build_opponent_variables 1 [ra1] ''MODEL_A'')) = Inr pb1"
    "render_prompt ta2 (dict_update [(''TOPIC'', Some topic), (''CONDITIONS'', Some cond)]
        (build_opponent_variables 2 [rb1] ''MODEL_B'')) = Inr pa2"
    "render_prompt tb2 (dict_update [(''TOPIC'', Some topic), (''CONDITIONS'', Some cond)]
        (build_opponent_variables 2 [ra1, ra2] ''MODEL_A'')) = Inr pb2"
    "render_prompt ta3 (dict_update [(''TOPIC'', Some topic), (''CONDITIONS'', Some cond)]
        (build_opponent_variables 3 [rb1, rb2] ''MODEL_B'')) = Inr pa3"
    "render_prompt tb3 (dict_update [(''TOPIC'', Some topic), (''CONDITIONS'', Some cond)]
        (build_opponent_variables 3 [ra1, ra2, ra3] ''MODEL_A'')) = Inr pb3"
    "render_prompt ta4 (dict_update [(''TOPIC'', Some topic), (''CONDITIONS'', Some cond)]
        (build_opponent_variables 4 [rb1, rb2, rb3] ''MODEL_B'')) = Inr pa4"
    "render_prompt tb4 (dict_update [(''TOPIC'', Some topic), (''CONDITIONS'', Some cond)]
        (build_opponent_variables 4 [ra1, ra2, ra3, ra4] ''MODEL_A'')) = Inr pb4"
proof -
  from assms obtain sp s1 s2 s3 where
    r1: "run_round e ca cb ma mb topic cond 1 (rounds ! 0) (initial_state sp) = Inr s1" and
    r2: "run_round e ca cb ma mb topic cond 2 (rounds ! 1) s1 = Inr s2" and
    r3: "run_round e ca cb ma mb topic cond 3 (rounds ! 2) s2 = Inr s3" and
    r4: "run_round e ca cb ma mb topic cond 4 (rounds ! 3) s3 = Inr s"
    by (auto simp: debate_rounds_def rounds_def split: sum.splits)
  from r1 obtain ta1 tb1 pa1 pb1 ra1 rb1 where f1:
    "load_prompt e (''model_a/'' @ rounds ! 0) = Inr ta1"
    "load_prompt e (''model_b/'' @ rounds ! 0) = Inr tb1"
    "render_prompt ta1 (dict_update [(''TOPIC'', Some topic), (''CONDITIONS'', Some cond)]
        (build_opponent_variables 1 (history_b (initial_state sp)) ''MODEL_B'')) = Inr pa1"
    "render_prompt tb1 (dict_update [(''TOPIC'', Some topic), (''CONDITIONS'', Some cond)]
        (build_opponent_variables 1 (history_a (initial_state sp) @ [ra1]) ''MODEL_A'')) = Inr pb1"
    "history_a s1 = history_a (initial_state sp) @ [ra1]"
    "history_b s1 = history_b (initial_state sp) @ [rb1]"
    "rounds_log s1 = rounds_log (initial_state sp) @ [log_entry 1 ''A'' pa1 ra1, log_entry 1 ''B'' pb1 rb1]"
    "jury_results s1 = jury_results (initial_state sp)"
    "jury_parsed_list s1 = jury_parsed_list (initial_state sp)"
    by (rule run_round_result)
  from r2 obtain ta2 tb2 pa2 pb2 ra2 rb2 where f2:
    "load_prompt e (''model_a/'' @ rounds ! 1) = Inr ta2"
    "load_prompt e (''model_b/'' @ rounds ! 1) = Inr tb2"
    "render_prompt ta2 (dict_update [(''TOPIC'', Some topic), (''CONDITIONS'', Some cond)]
        (build_opponent_variables 2 (history_b s1) ''MODEL_B'')) = Inr pa2"
    "render_prompt tb2 (dict_update [(''TOPIC'', Some topic), (''CONDITIONS'', Some cond)]
        (build_opponent_variables 2 (history_a s1 @ [ra2]) ''MODEL_A'')) = Inr pb2"
    "history_a s2 = history_a s1 @ [ra2]"
    "history_b s2 = history_b s1 @ [rb2]"
    "rounds_log s2 = rounds_log s1 @ [log_entry 2 ''A'' pa2 ra2, log_entry 2 ''B'' pb2 rb2]"
    "jury_results s2 = jury_results s1"
    "jury_parsed_list s2 = jury_parsed_list s1"
    by (rule run_round_result)
  from r3 obtain ta3 tb3 pa3 pb3 ra3 rb3 where f3:
    "load_prompt e (''model_a/'' @ rounds ! 2) = Inr ta3"
    "load_prompt e (''model_b/'' @ rounds ! 2) = Inr tb3"
    "render_prompt ta3 (dict_update [(''TOPIC'', Some topic), (''CONDITIONS'', Some cond)]
        (build_opponent_variables 3 (history_b s2) ''MODEL_B'')) = Inr pa3"
    "render_prompt tb3 (dict_update [(''TOPIC'', Some topic), (''CONDITIONS'', Some cond)]
        (build_opponent_variables 3 (history_a s2 @ [ra3]) ''MODEL_A'')) = Inr pb3"
    "history_a s3 = history_a s2 @ [ra3]"
    "history_b s3 = history_b s2 @ [rb3]"
    "rounds_log s3 = rounds_log s2 @ [log_entry 3 ''A'' pa3 ra3, log_entry 3 ''B'' pb3 rb3]"
    "jury_results s3 = jury_results s2"
    "jury_parsed_list s3 = jury_parsed_list s2"
    by (rule run_round_result)
  from r4 obtain ta4 tb4 pa4 pb4 ra4 rb4 where f4:
    "load_prompt e (''model_a/'' @ rounds ! 3) = Inr ta4"
    "load_prompt e (''model_b/'' @ rounds ! 3) = Inr tb4"
    "render_prompt ta4 (dict_update [(''TOPIC'', Some topic), (''CONDITIONS'', Some cond)]
        (build_opponent_variables 4 (history_b s3) ''MODEL_B'')) = Inr pa4"
    "render_prompt tb4 (dict_update [(''TOPIC'', Some topic), (''CONDITIONS'', Some cond)]
        (build_opponent_variables 4 (history_a s3 @ [ra4]) ''MODEL_A'')) = Inr pb4"
    "history_a s = history_a s3 @ [ra4]"
    "history_b s = history_b s3 @ [rb4]"
    "rounds_log s = rounds_log s3 @ [log_entry 4 ''A'' pa4 ra4, log_entry 4 ''B'' pb4 rb4]"
    "jury_results s = jury_results s3"
    "jury_parsed_list s = jury_parsed_list s3"
    by (rule run_round_result)
  show thesis
    using f1 f2 f3 f4
    by (intro that [of ra1 ra2 ra3 ra4 rb1 rb2 rb3 rb4 pa1 pb1 pa2 pb2 pa3 pb3 pa4 pb4
                       ta1 tb1 ta2 tb2 ta3 tb3 ta4 tb4]) simp_all
qed

section \<open>The judge loop\<close>

lemma judge_step_result:
  assumes "judge_step e topic cond blind cfg s = Inr s'"
  obtains uf jr v where
    "evaluate_judge e topic cond (history_a s) (history_b s) blind cfg = Inr (uf, jr, v)"
    "history_a s' = history_a s" "history_b s' = history_b s"
    "rounds_log s' = rounds_log s"
    "jury_parsed_list s' = jury_parsed_list s @ (case v of None \<Rightarrow> [] | Some p \<Rightarrow> [p])"
  using assms by (auto simp: judge_step_def Let_def split: sum.splits option.splits)

lemma judge_step_total:
  assumes "evaluate_judge e topic cond (history_a s) (history_b s) blind cfg = Inr r"
  shows "\<exists>s'. judge_step e topic cond blind cfg s = Inr s'"
  using assms by (cases r) (auto simp: judge_step_def Let_def split: option.splits)

lemma jury_loop_result:
  assumes "jury_loop e topic cond blind cfgs s = Inr s'"
  shows "history_a s' = history_a s \<and> history_b s' = history_b s \<and>
         rounds_log s' = rounds_log s \<and>
         jury_parsed_list s' =
           jury_parsed_list s @
           List.map_filter (judge_verdict e topic cond (history_a s) (history_b s) blind) cfgs \<and>
         (\<forall>c \<in> set cfgs. \<exists>r. evaluate_judge e topic cond (history_a s) (history_b s) blind c = Inr r)"
  using assms
proof (induction cfgs arbitrary: s)
  case Nil
  then show ?case by (simp add: List.map_filter_simps)
next
  case (Cons c cfgs)
  from Cons.prems obtain s1 where
    step: "judge_step e topic cond blind c s = Inr s1" and
    rest: "jury_loop e topic cond blind cfgs s1 = Inr s'"
    by (auto split: sum.splits)
  from step obtain uf jr v where f:
    "evaluate_judge e topic cond (history_a s) (history_b s) blind c = Inr (uf, jr, v)"
    "history_a s1 = history_a s" "history_b s1 = history_b s"
    "rounds_log s1 = rounds_log s"
    "jury_parsed_list s1 = jury_parsed_list s @ (case v of None \<Rightarrow> [] | Some p \<Rightarrow> [p])"
    by (rule judge_step_result)
  from Cons.IH [OF rest] f show ?case
    by (auto simp: List.map_filter_simps judge_verdict_def split: option.splits)
qed

lemma jury_loop_total:
  assumes "\<forall>c \<in> set cfgs. \<exists>r. evaluate_judge e topic cond (history_a s) (history_b s) blind c = Inr r"
  shows "\<exists>s'. jury_loop e topic cond blind cfgs s = Inr s'"
  using assms
proof (induction cfgs arbitrary: s)
  case Nil
  then show ?case by simp
next
  case (Cons c cfgs)
  then obtain r where "evaluate_judge e topic cond (history_a s) (history_b s) blind c = Inr r"
    by auto
  then obtain s1 where step: "judge_step e topic cond blind c s = Inr s1"
    using judge_step_total by blast
  then have "history_a s1 = history_a s" "history_b s1 = history_b s"
    by (auto elim: judge_step_result)
  with Cons.prems have
    "\<forall>c \<in> set cfgs. \<exists>r. evaluate_judge e topic cond (history_a s1) (history_b s1) blind c = Inr r"
    by simp
  from Cons.IH [OF this] step show ?case by auto
qed

lemma jury_loop_raises:
  assumes "jury_loop e topic cond blind pre s = Inr s1"
      and "evaluate_judge e topic cond (history_a s) (history_b s) blind c = Inl err"
  shows "jury_loop e topic cond blind (pre @ c # post) s = Inl err"
  using assms
proof (induction pre arbitrary: s)
  case Nil
  then show ?case by (simp add: judge_step_def)
next
  case (Cons d pre)
  from Cons.prems(1) obtain s2 where
    step: "judge_step e topic cond blind d s = Inr s2" and
    rest: "jury_loop e topic cond blind pre s2 = Inr s1"
    by (auto split: sum.splits)
  from step have "history_a s2 = history_a s" "history_b s2 = history_b s"
    by (auto elim: judge_step_result)
  with Cons.prems(2) have "evaluate_judge e topic cond (history_a s2) (history_b s2) blind c = Inl err"
    by simp
  from Cons.IH [OF rest this] step show ?case by simp
qed

section \<open>Valid verdicts\<close>

lemma is_valid_jury_True:
  "is_valid_jury p = Inr True \<longleftrightarrow>
     py_get p ''winner'' \<in> {JStr ''Side A'', JStr ''Side B''} \<and>
     py_get p ''total_score_A'' \<noteq> JNull \<and> py_get p ''total_score_B'' \<noteq> JNull"
  by (auto simp: is_valid_jury_def py_get_def)

lemma judge_verdict_valid:
  assumes "judge_verdict e topic cond ha hb blind c = Some p"
  shows "is_valid_jury p = Inr True"
  using assms
  by (auto simp: judge_verdict_def evaluate_judge_def Let_def
           split: sum.splits json.splits if_splits)

lemma run_debate_completes:
  assumes "run_debate e ca cb cfgs ma mb topic cond blind file = (file', None)"
  obtains s s' where
    "debate_rounds e ca cb ma mb topic cond = Inr s"
    "jury_loop e topic cond blind cfgs s = Inr s'"
    "file' = file @ [build_record e cfgs ma mb topic cond s']"
  using assms by (auto simp: run_debate_def save_jsonl_def split: sum.splits)

lemma in_map_filter:
  "p \<in> set (List.map_filter f xs) \<Longrightarrow> \<exists>x \<in> set xs. f x = Some p"
  by (induction xs) (auto simp: List.map_filter_simps split: option.splits)

lemma run_debate_parsed_valid:
  assumes "debate_rounds e ca cb ma mb topic cond = Inr s"
      and "jury_loop e topic cond blind cfgs s = Inr s'"
  shows "\<forall>p \<in> set (jury_parsed_list s'). is_valid_jury p = Inr True"
proof -
  from assms(1) have "jury_parsed_list s = []"
    by (rule debate_rounds_trace)
  with jury_loop_result [OF assms(2)] have
    "jury_parsed_list s' =
       List.map_filter (judge_verdict e topic cond (history_a s) (history_b s) blind) cfgs"
    by simp
  then show ?thesis
    using in_map_filter judge_verdict_valid by metis
qed

section \<open>The rounds array of the record\<close>

lemma demo_run_no_judges:
  "run_debate demo_env demo_debater demo_debater [] ''m'' ''m'' ''X'' '''' False [] =
     ([build_record demo_env [] ''m'' ''m'' ''X'' '''' demo_state], None)"
  by (simp add: run_debate_def demo_rounds save_jsonl_def)

text \<open>
  Claim C8. A run that completes appends one record whose rounds array has exactly eight
  entries, tagged (1, A), (1, B), (2, A), (2, B), (3, A), (3, B), (4, A), (4, B) in this
  order: round-major, side A before side B.
\<close>

theorem rounds_array_layout:
  assumes "run_debate e ca cb cfgs ma mb topic cond blind file = (file', None)"
  shows "\<exists>r. file' = file @ [r] \<and> length (rec_rounds r) = 8 \<and>
           map (\<lambda>x. (re_id x, re_side x)) (rec_rounds r) =
             [(1, ''A''), (1, ''B''), (2, ''A''), (2, ''B''),
              (3, ''A''), (3, ''B''), (4, ''A''), (4, ''B'')]"
proof -
  from assms obtain s s' where
    rounds: "debate_rounds e ca cb ma mb topic cond = Inr s" and
    jury: "jury_loop e topic cond blind cfgs s = Inr s'" and
    appended: "file' = file @ [build_record e cfgs ma mb topic cond s']"
    by (rule run_debate_completes)
  from jury have log: "rounds_log s' = rounds_log s"
    by (simp add: jury_loop_result)
  have rec: "rec_rounds (build_record e cfgs ma mb topic cond s') = rounds_log s'"
    by (simp add: build_record_def Let_def split: prod.splits)
  from rounds obtain pa1 pb1 ra1 rb1 pa2 pb2 ra2 rb2 pa3 pb3 ra3 rb3 pa4 pb4 ra4 rb4 where
    "rounds_log s =
       [log_entry 1 ''A'' pa1 ra1, log_entry 1 ''B'' pb1 rb1,
        log_entry 2 ''A'' pa2 ra2, log_entry 2 ''B'' pb2 rb2,
        log_entry 3 ''A'' pa3 ra3, log_entry 3 ''B'' pb3 rb3,
        log_entry 4 ''A'' pa4 ra4, log_entry 4 ''B'' pb4 rb4]"
    by (rule debate_rounds_trace)
  with log rec appended show ?thesis
    by (simp add: log_entry_def Let_def)
qed

theorem rounds_array_layout_witness:
  "run_debate demo_env demo_debater demo_debater [] ''m'' ''m'' ''X'' '''' False [] =
     ([build_record demo_env [] ''m'' ''m'' ''X'' '''' demo_state], None) \<and>
   (\<exists>r. [build_record demo_env [] ''m'' ''m'' ''X'' '''' demo_state] = [] @ [r] \<and>
        length (rec_rounds r) = 8 \<and>
        map (\<lambda>x. (re_id x, re_side x)) (rec_rounds r) =
          [(1, ''A''), (1, ''B''), (2, ''A''), (2, ''B''),
           (3, ''A''), (3, ''B''), (4, ''A''), (4, ''B'')])"
  using rounds_array_layout [OF demo_run_no_judges] demo_run_no_judges by simp

section \<open>Opponent context\<close>






section \<open>The concrete judges\<close>

lemma run_debate_from_states:
  assumes "debate_rounds e ca cb ma mb topic cond = Inr s"
      and "jury_loop e topic cond blind cfgs s = Inr s'"
  shows "run_debate e ca cb cfgs ma mb topic cond blind file =
           (file @ [build_record e cfgs ma mb topic cond s'], None)"
  using assms by (simp add: run_debate_def save_jsonl_def)

lemma jury_loop_exists:
  assumes "\<forall>c \<in> set cfgs. \<exists>r. evaluate_judge e topic cond (history_a s) (history_b s) blind c = Inr r"
  shows "\<exists>s'. jury_loop e topic cond blind cfgs s = Inr s' \<and>
              jury_parsed_list s' =
                jury_parsed_list s @
                List.map_filter (judge_verdict e topic cond (history_a s) (history_b s) blind) cfgs"
  using jury_loop_total [OF assms] jury_loop_result by blast

lemma demo_evaluate:
  "evaluate_judge demo_env ''X'' '''' (history_a demo_state) (history_b demo_state) False
      (judge_saying verdict_text_1) =
   Inr (extract_usage_fields None,
        \<lparr>jc_judge_model = ''judge'', jc_side_map = \<lparr>sm_A = ''A'', sm_B = ''B''\<rparr>,
         jc_prompt = ''X'', jc_raw_response = Some verdict_text_1, jc_usage = None\<rparr>,
        Some verdict_1)"
  "evaluate_judge demo_env ''X'' '''' (history_a demo_state) (history_b demo_state) False
      (judge_saying verdict_text_2) =
   Inr (extract_usage_fields None,
        \<lparr>jc_judge_model = ''judge'', jc_side_map = \<lparr>sm_A = ''A'', sm_B = ''B''\<rparr>,
         jc_prompt = ''X'', jc_raw_response = Some verdict_text_2, jc_usage = None\<rparr>,
        Some verdict_2)"
  "evaluate_judge demo_env ''X'' '''' (history_a demo_state) (history_b demo_state) False
      (judge_saying verdict_text_3) =
   Inr (extract_usage_fields None,
        \<lparr>jc_judge_model = ''judge'', jc_side_map = \<lparr>sm_A = ''A'', sm_B = ''B''\<rparr>,
         jc_prompt = ''X'', jc_raw_response = Some verdict_text_3, jc_usage = None\<rparr>,
        Some verdict_3)"
  by (simp_all add: evaluate_judge_def demo_judge_call or_empty_def demo_parse Let_def
        remap_winner_def normalize_jury_scores_def is_valid_jury_def py_get_def py_get_default_def
        verdict_1_def verdict_2_def verdict_3_def py_or_def)

lemma demo_evaluate_blind:
  "evaluate_judge demo_env ''X'' '''' (history_a demo_state) (history_b demo_state) True
      (judge_saying verdict_text_1) =
   Inr (extract_usage_fields None,
        \<lparr>jc_judge_model = ''judge'', jc_side_map = \<lparr>sm_A = ''B'', sm_B = ''A''\<rparr>,
         jc_prompt = ''X'', jc_raw_response = Some verdict_text_1, jc_usage = None\<rparr>,
        Some [(''total_score_A'', JInt 12), (''total_score_B'', JInt 18),
              (''detailed_scores_A'', JNull), (''detailed_scores_B'', JNull),
              (''winner'', JStr ''Side B''), (''reasoning'', JStr ''first''),
              (''general'', JStr ''g1'')])"
  by (simp add: evaluate_judge_def demo_judge_call or_empty_def demo_parse Let_def
        remap_winner_def normalize_jury_scores_def is_valid_jury_def py_get_def py_get_default_def
        verdict_1_def py_or_def)

lemma clean_fenced_garbage: "clean_jury_text fenced_garbage = ''oops'' @ [CHR 0x0A]"
  by (simp add: clean_jury_text_def fenced_garbage_def strip_def strip_backticks_def lstrip_def
        is_space_def startswith_def Let_def)

lemma demo_loads_garbage: "json_loads demo_env (clean_jury_text fenced_garbage) = None"
  by (simp add: clean_fenced_garbage demo_env_def demo_loads_def verdict_text_1_def
        verdict_text_2_def verdict_text_3_def list_winner_text_def)

lemma demo_evaluate_list_winner:
  "evaluate_judge demo_env ''X'' '''' (history_a demo_state) (history_b demo_state) False
      (judge_saying list_winner_text) = Inl TypeError"
  by (simp add: evaluate_judge_def demo_judge_call or_empty_def demo_parse Let_def
        remap_winner_def normalize_jury_scores_def is_valid_jury_def py_get_def py_get_default_def
        list_winner_verdict_def py_or_def)

lemma demo_evaluate_down:
  "evaluate_judge demo_env ''X'' '''' (history_a demo_state) (history_b demo_state) False
      judge_down = Inl BackendError"
  by (simp add: evaluate_judge_def run_jury_evaluation_def load_prompt_def demo_env_def
        judge_request_def startswith_def judge_down_def call_model_def Let_def)

lemma demo_verdicts:
  "judge_verdict demo_env ''X'' '''' (history_a demo_state) (history_b demo_state) False
      (judge_saying verdict_text_1) = Some verdict_1"
  "judge_verdict demo_env ''X'' '''' (history_a demo_state) (history_b demo_state) False
      (judge_saying verdict_text_2) = Some verdict_2"
  "judge_verdict demo_env ''X'' '''' (history_a demo_state) (history_b demo_state) False
      (judge_saying verdict_text_3) = Some verdict_3"
  by (simp_all add: judge_verdict_def demo_evaluate)

section \<open>Winner aggregation\<close>

lemma winners_valid:
  assumes "\<forall>p \<in> set pl. is_valid_jury p = Inr True"
  shows "winners pl = map (\<lambda>p. py_get p ''winner'') pl"
proof -
  have "filter (\<lambda>item. truthy (py_get item ''winner'')) pl = pl"
    using assms by (auto simp: is_valid_jury_True intro!: filter_True)
  then show ?thesis by (simp add: winners_def)
qed

lemma count_two_values:
  assumes "\<forall>w \<in> set ws. w = a \<or> w = b" and "a \<noteq> b"
  shows "count_list ws a + count_list ws b = length ws"
  using assms by (induction ws) auto

lemma final_winner_occurs:
  assumes "pl \<noteq> []" and "\<forall>p \<in> set pl. is_valid_jury p = Inr True"
  shows "JStr (final_winner pl) \<in> set (map (\<lambda>p. py_get p ''winner'') pl)"
proof -
  let ?ws = "winners pl"
  have ws: "?ws = map (\<lambda>p. py_get p ''winner'') pl"
    using assms(2) by (rule winners_valid)
  with assms(1) have ne: "?ws \<noteq> []" by simp
  have "\<forall>w \<in> set ?ws. w = JStr ''Side A'' \<or> w = JStr ''Side B''"
    using assms(2) by (auto simp: ws is_valid_jury_True)
  then have sum: "count_list ?ws (JStr ''Side A'') + count_list ?ws (JStr ''Side B'') = length ?ws"
    by (rule count_two_values) simp
  show ?thesis
  proof (cases "count_list ?ws (JStr ''Side A'') \<ge> count_list ?ws (JStr ''Side B'')")
    case True
    from ne have "length ?ws \<noteq> 0" by simp
    with sum True have "count_list ?ws (JStr ''Side A'') \<noteq> 0" by linarith
    then have "JStr ''Side A'' \<in> set ?ws" by (simp add: count_list_0_iff)
    moreover from True ne have "final_winner pl = ''Side A''"
      by (simp add: final_winner_def count_winners_def Let_def)
    ultimately show ?thesis by (simp add: ws)
  next
    case False
    then have "count_list ?ws (JStr ''Side B'') \<noteq> 0" by auto
    then have "JStr ''Side B'' \<in> set ?ws" by (simp add: count_list_0_iff)
    moreover from False ne have "final_winner pl = ''Side B''"
      by (simp add: final_winner_def count_winners_def Let_def)
    ultimately show ?thesis by (simp add: ws)
  qed
qed

lemma representative_first:
  assumes "JStr fw \<in> set (map (\<lambda>p. py_get p ''winner'') pl)"
  shows "\<exists>pre p post. pl = pre @ p # post \<and> py_get p ''winner'' = JStr fw \<and>
           (\<forall>q \<in> set pre. py_get q ''winner'' \<noteq> JStr fw) \<and>
           representative fw pl =
             (py_or (py_get_default p ''reasoning'' (JStr '''')) (JStr ''''),
              py_or (py_get_default p ''general'' (JStr '''')) (JStr ''''))"
  using assms
proof (induction pl)
  case Nil
  then show ?case by simp
next
  case (Cons x pl)
  show ?case
  proof (cases "py_get x ''winner'' = JStr fw")
    case True
    then have "x # pl = [] @ x # pl \<and> py_get x ''winner'' = JStr fw \<and>
        (\<forall>q \<in> set []. py_get q ''winner'' \<noteq> JStr fw) \<and>
        representative fw (x # pl) =
          (py_or (py_get_default x ''reasoning'' (JStr '''')) (JStr ''''),
           py_or (py_get_default x ''general'' (JStr '''')) (JStr ''''))"
      by simp
    then show ?thesis by blast
  next
    case False
    with Cons.prems have "JStr fw \<in> set (map (\<lambda>p. py_get p ''winner'') pl)" by auto
    from Cons.IH [OF this] obtain pre p post where
      "pl = pre @ p # post" "py_get p ''winner'' = JStr fw"
      "\<forall>q \<in> set pre. py_get q ''winner'' \<noteq> JStr fw"
      "representative fw pl =
         (py_or (py_get_default p ''reasoning'' (JStr '''')) (JStr ''''),
          py_or (py_get_default p ''general'' (JStr '''')) (JStr ''''))"
      by blast
    with False have "x # pl = (x # pre) @ p # post \<and> py_get p ''winner'' = JStr fw \<and>
        (\<forall>q \<in> set (x # pre). py_get q ''winner'' \<noteq> JStr fw) \<and>
        representative fw (x # pl) =
          (py_or (py_get_default p ''reasoning'' (JStr '''')) (JStr ''''),
           py_or (py_get_default p ''general'' (JStr '''')) (JStr ''''))"
      by simp
    then show ?thesis by blast
  qed
qed

lemma build_record_fields:
  "ev_parsed (rec_evaluation (build_record e cfgs ma mb topic cond s)) = jury_parsed_list s"
  "res_winner (rec_result (build_record e cfgs ma mb topic cond s)) = final_winner (jury_parsed_list s)"
  "res_winning_reason (rec_result (build_record e cfgs ma mb topic cond s)) =
     fst (representative (final_winner (jury_parsed_list s)) (jury_parsed_list s))"
  "res_general (rec_result (build_record e cfgs ma mb topic cond s)) =
     snd (representative (final_winner (jury_parsed_list s)) (jury_parsed_list s))"
  "ev_winner_counts (rec_evaluation (build_record e cfgs ma mb topic cond s)) =
     count_winners (jury_parsed_list s)"
  by (simp_all add: build_record_def Let_def split: prod.splits)

text \<open>
  Claim C3. A run that completes appends one record. If at least one verdict of the record
  carries a non-empty winner, the record's winner is Side A when Side A has at least as
  many winners as Side B, and Side B otherwise. In particular, when the winners are
  Side A, Side B, one each, the record's winner is Side A.
\<close>

theorem final_winner_majority_tie_to_side_a:
  assumes "run_debate e ca cb cfgs ma mb topic cond blind file = (file', None)"
  shows "\<exists>r. file' = file @ [r] \<and>
     (winners (ev_parsed (rec_evaluation r)) \<noteq> [] \<longrightarrow>
        res_winner (rec_result r) =
          (if count_list (winners (ev_parsed (rec_evaluation r))) (JStr ''Side A'')
                \<ge> count_list (winners (ev_parsed (rec_evaluation r))) (JStr ''Side B'')
           then ''Side A'' else ''Side B'')) \<and>
     (map (\<lambda>p. py_get p ''winner'') (ev_parsed (rec_evaluation r)) =
          [JStr ''Side A'', JStr ''Side B''] \<longrightarrow>
        res_winner (rec_result r) = ''Side A'')"
proof -
  from assms obtain s s' where
    appended: "file' = file @ [build_record e cfgs ma mb topic cond s']"
    by (rule run_debate_completes)
  let ?pl = "jury_parsed_list s'"
  have a: "winners ?pl \<noteq> [] \<longrightarrow>
        final_winner ?pl =
          (if count_list (winners ?pl) (JStr ''Side A'') \<ge> count_list (winners ?pl) (JStr ''Side B'')
           then ''Side A'' else ''Side B'')"
    by (simp add: final_winner_def count_winners_def Let_def)
  have b: "final_winner ?pl = ''Side A''"
    if "map (\<lambda>p. py_get p ''winner'') ?pl = [JStr ''Side A'', JStr ''Side B'']"
  proof -
    from that obtain va vb where "?pl = [va, vb]" "py_get va ''winner'' = JStr ''Side A''"
      "py_get vb ''winner'' = JStr ''Side B''"
      by auto
    then show ?thesis
      by (simp add: final_winner_def count_winners_def winners_def Let_def)
  qed
  from appended a b show ?thesis
    by (simp add: build_record_fields)
qed

lemma demo_state_fields:
  "jury_parsed_list demo_state = []" "jury_results demo_state = []"
  by (simp_all add: demo_state_def)

lemma demo_run_tie:
  "\<exists>s'. run_debate demo_env demo_debater demo_debater
          [judge_saying verdict_text_1, judge_saying verdict_text_3] ''m'' ''m'' ''X'' '''' False [] =
        ([build_record demo_env [judge_saying verdict_text_1, judge_saying verdict_text_3]
            ''m'' ''m'' ''X'' '''' s'], None) \<and>
        jury_parsed_list s' = [verdict_1, verdict_3]"
proof -
  have "\<exists>s'. jury_loop demo_env ''X'' '''' False
          [judge_saying verdict_text_1, judge_saying verdict_text_3] demo_state = Inr s' \<and>
        jury_parsed_list s' =
          jury_parsed_list demo_state @
          List.map_filter
            (judge_verdict demo_env ''X'' '''' (history_a demo_state) (history_b demo_state) False)
            [judge_saying verdict_text_1, judge_saying verdict_text_3]"
    by (rule jury_loop_exists) (simp add: demo_evaluate)
  then obtain s' where
    loop: "jury_loop demo_env ''X'' '''' False
          [judge_saying verdict_text_1, judge_saying verdict_text_3] demo_state = Inr s'" and
    parsed: "jury_parsed_list s' =
          jury_parsed_list demo_state @
          List.map_filter
            (judge_verdict demo_env ''X'' '''' (history_a demo_state) (history_b demo_state) False)
            [judge_saying verdict_text_1, judge_saying verdict_text_3]"
    by blast
  have "jury_parsed_list s' = [verdict_1, verdict_3]"
    unfolding parsed by (simp add: List.map_filter_simps demo_verdicts demo_state_fields)
  moreover from run_debate_from_states [OF demo_rounds loop, of "[]"] have
    "run_debate demo_env demo_debater demo_debater
          [judge_saying verdict_text_1, judge_saying verdict_text_3] ''m'' ''m'' ''X'' [] False [] =
        ([build_record demo_env [judge_saying verdict_text_1, judge_saying verdict_text_3]
            ''m'' ''m'' ''X'' [] s'], None)"
    by simp
  ultimately show ?thesis
    by (intro exI [of _ s'] conjI)
qed

theorem final_winner_majority_tie_to_side_a_witness:
  "\<exists>file'. run_debate demo_env demo_debater demo_debater
        [judge_saying verdict_text_1, judge_saying verdict_text_3] ''m'' ''m'' ''X'' '''' False [] =
        (file', None) \<and>
     (\<exists>r. file' = [] @ [r] \<and>
        winners (ev_parsed (rec_evaluation r)) \<noteq> [] \<and>
        map (\<lambda>p. py_get p ''winner'') (ev_parsed (rec_evaluation r)) =
          [JStr ''Side A'', JStr ''Side B''] \<and>
        res_winner (rec_result r) = ''Side A'')"
proof -
  from demo_run_tie obtain s' where
    run: "run_debate demo_env demo_debater demo_debater
          [judge_saying verdict_text_1, judge_saying verdict_text_3] ''m'' ''m'' ''X'' '''' False [] =
        ([build_record demo_env [judge_saying verdict_text_1, judge_saying verdict_text_3]
            ''m'' ''m'' ''X'' '''' s'], None)" and
    pl: "jury_parsed_list s' = [verdict_1, verdict_3]"
    by blast
  have ws: "winners [verdict_1, verdict_3] \<noteq> []"
    "map (\<lambda>p. py_get p ''winner'') [verdict_1, verdict_3] = [JStr ''Side A'', JStr ''Side B'']"
    by (simp_all add: winners_def py_get_def verdict_1_def verdict_3_def)
  from final_winner_majority_tie_to_side_a [OF run] obtain r where
    r: "[build_record demo_env [judge_saying verdict_text_1, judge_saying verdict_text_3]
            ''m'' ''m'' ''X'' '''' s'] = [] @ [r]" and
    tie: "map (\<lambda>p. py_get p ''winner'') (ev_parsed (rec_evaluation r)) =
            [JStr ''Side A'', JStr ''Side B''] \<longrightarrow> res_winner (rec_result r) = ''Side A''"
    by blast
  from r have req: "r = build_record demo_env
      [judge_saying verdict_text_1, judge_saying verdict_text_3] ''m'' ''m'' ''X'' [] s'"
    by simp
  have "ev_parsed (rec_evaluation r) = [verdict_1, verdict_3]"
    unfolding req by (simp add: build_record_fields pl)
  with ws tie have
    "[r] = [] @ [r] \<and>
     winners (ev_parsed (rec_evaluation r)) \<noteq> [] \<and>
     map (\<lambda>p. py_get p ''winner'') (ev_parsed (rec_evaluation r)) =
       [JStr ''Side A'', JStr ''Side B''] \<and>
     res_winner (rec_result r) = ''Side A''"
    by simp
  then have "\<exists>r'. [r] = [] @ [r'] \<and>
     winners (ev_parsed (rec_evaluation r')) \<noteq> [] \<and>
     map (\<lambda>p. py_get p ''winner'') (ev_parsed (rec_evaluation r')) =
       [JStr ''Side A'', JStr ''Side B''] \<and>
     res_winner (rec_result r') = ''Side A''"
    by (rule exI [of _ r])
  moreover from run have "run_debate demo_env demo_debater demo_debater
        [judge_saying verdict_text_1, judge_saying verdict_text_3] ''m'' ''m'' ''X'' [] False [] =
        ([r], None)"
    unfolding req .
  ultimately show ?thesis
    by (intro exI [of _ "[r]"] conjI)
qed

section \<open>Representative texts\<close>

text \<open>
  Claim C4. A run that completes appends one record. If the record has at least one
  verdict, its verdict list splits at the first verdict, in judge order, whose winner is
  the record's winner; the winning reason and the general summary of the record are the
  reasoning and general fields of that verdict (the empty string where the field is
  missing or empty), whatever later verdicts with the same winner say.
\<close>

theorem representative_text_from_first_match:
  assumes "run_debate e ca cb cfgs ma mb topic cond blind file = (file', None)"
  shows "\<exists>r. file' = file @ [r] \<and>
     (ev_parsed (rec_evaluation r) \<noteq> [] \<longrightarrow>
        (\<exists>pre p post. ev_parsed (rec_evaluation r) = pre @ p # post \<and>
           py_get p ''winner'' = JStr (res_winner (rec_result r)) \<and>
           (\<forall>q \<in> set pre. py_get q ''winner'' \<noteq> JStr (res_winner (rec_result r))) \<and>
           res_winning_reason (rec_result r) =
             py_or (py_get_default p ''reasoning'' (JStr '''')) (JStr '''') \<and>
           res_general (rec_result r) =
             py_or (py_get_default p ''general'' (JStr '''')) (JStr '''')))"
proof -
  from assms obtain s s' where
    rounds: "debate_rounds e ca cb ma mb topic cond = Inr s" and
    jury: "jury_loop e topic cond blind cfgs s = Inr s'" and
    appended: "file' = file @ [build_record e cfgs ma mb topic cond s']"
    by (rule run_debate_completes)
  let ?pl = "jury_parsed_list s'"
  have valid: "\<forall>p \<in> set ?pl. is_valid_jury p = Inr True"
    using rounds jury by (rule run_debate_parsed_valid)
  have "\<exists>pre p post. ?pl = pre @ p # post \<and>
           py_get p ''winner'' = JStr (final_winner ?pl) \<and>
           (\<forall>q \<in> set pre. py_get q ''winner'' \<noteq> JStr (final_winner ?pl)) \<and>
           representative (final_winner ?pl) ?pl =
             (py_or (py_get_default p ''reasoning'' (JStr '''')) (JStr ''''),
              py_or (py_get_default p ''general'' (JStr '''')) (JStr ''''))"
    if "?pl \<noteq> []"
    using final_winner_occurs [OF that valid] by (rule representative_first)
  then have "?pl \<noteq> [] \<longrightarrow>
      (\<exists>pre p post. ?pl = pre @ p # post \<and>
           py_get p ''winner'' = JStr (final_winner ?pl) \<and>
           (\<forall>q \<in> set pre. py_get q ''winner'' \<noteq> JStr (final_winner ?pl)) \<and>
           fst (representative (final_winner ?pl) ?pl) =
             py_or (py_get_default p ''reasoning'' (JStr '''')) (JStr '''') \<and>
           snd (representative (final_winner ?pl) ?pl) =
             py_or (py_get_default p ''general'' (JStr '''')) (JStr ''''))"
    by fastforce
  with appended show ?thesis
    by (simp add: build_record_fields)
qed

section \<open>No winner\<close>

lemma add_usage_none: "add_usage (extract_usage_fields None) s = s"
  by (simp add: add_usage_def extract_usage_fields_def)

lemma evaluate_judge_unparsable:
  assumes "run_jury_evaluation e (cfg_client c) (cfg_model c) topic cond ha hb blind = Inr jr"
      and "or_empty (jc_raw_response jr) = [] \<or>
           json_loads e (clean_jury_text (or_empty (jc_raw_response jr))) = None"
  shows "parse_jury_response e (or_empty (jc_raw_response jr)) = JObj []"
    and "evaluate_judge e topic cond ha hb blind c =
           Inr (extract_usage_fields (jc_usage jr), jr, None)"
proof -
  show p: "parse_jury_response e (or_empty (jc_raw_response jr)) = JObj []"
    using assms(2) by (auto simp: parse_jury_response_def)
  have "is_valid_jury
          (normalize_jury_scores
             (dict_set [] ''winner'' (remap_winner (py_get_default [] ''winner'' (JStr '''')) smap))
             smap) = Inr False" for smap
    by (simp add: remap_winner_def py_get_default_def py_or_def normalize_jury_scores_def
          is_valid_jury_def py_get_def)
  with assms(1) p show "evaluate_judge e topic cond ha hb blind c =
           Inr (extract_usage_fields (jc_usage jr), jr, None)"
    by (simp add: evaluate_judge_def Let_def)
qed

text \<open>
  Claim C6 as stated fails. In the run below the first judge answers with the empty text and
  the backend call of the second judge raises: no judge produces a valid verdict, the run
  ends with the exception and the output file stays empty.
\<close>

theorem no_valid_verdict_counterexample:
  "evaluate_judge demo_env ''X'' '''' (history_a demo_state) (history_b demo_state) False
      (judge_saying '''') =
     Inr (extract_usage_fields None,
          \<lparr>jc_judge_model = ''judge'', jc_side_map = \<lparr>sm_A = ''A'', sm_B = ''B''\<rparr>,
           jc_prompt = ''X'', jc_raw_response = Some '''', jc_usage = None\<rparr>, None) \<and>
   evaluate_judge demo_env ''X'' '''' (history_a demo_state) (history_b demo_state) False
      judge_down = Inl BackendError \<and>
   run_debate demo_env demo_debater demo_debater [judge_saying '''', judge_down]
     ''m'' ''m'' ''X'' '''' False [] = ([], Some BackendError)"
proof -
  have a: "evaluate_judge demo_env ''X'' '''' (history_a demo_state) (history_b demo_state) False
      (judge_saying '''') =
    Inr (extract_usage_fields None,
         \<lparr>jc_judge_model = ''judge'', jc_side_map = \<lparr>sm_A = ''A'', sm_B = ''B''\<rparr>,
          jc_prompt = ''X'', jc_raw_response = Some '''', jc_usage = None\<rparr>, None)"
    using evaluate_judge_unparsable(2) [OF demo_judge_call [of "''''" False]]
    by (simp add: or_empty_def)
  have "run_debate demo_env demo_debater demo_debater [judge_saying '''', judge_down]
     ''m'' ''m'' ''X'' '''' False [] = ([], Some BackendError)"
    by (simp add: run_debate_def demo_rounds judge_step_def a add_usage_none demo_state_fields
          demo_evaluate_down)
  with a demo_evaluate_down show ?thesis
    by (intro conjI)
qed

lemma map_filter_none:
  "\<forall>x \<in> set xs. f x = None \<Longrightarrow> List.map_filter f xs = []"
  by (induction xs) (simp_all add: List.map_filter_simps)

text \<open>
  Claim C6, amended. Let the rounds complete, and let every judge's call return a response
  that decodes to a dict (the empty dict for an empty or undecodable response) which the
  validity check rejects without raising. Then the run ends without an exception and
  appends one record; the record holds no verdict, its winner is the empty string and its
  winning reason and general summary are empty strings. A run in which a judge's call
  raises appends no record.
\<close>

theorem no_winner_record_persisted:
  assumes rounds: "debate_rounds e ca cb ma mb topic cond = Inr s"
      and rejected: "\<forall>c \<in> set cfgs. \<exists>jr raw.
            run_jury_evaluation e (cfg_client c) (cfg_model c) topic cond
              (history_a s) (history_b s) blind = Inr jr \<and>
            parse_jury_response e (or_empty (jc_raw_response jr)) = JObj raw \<and>
            is_valid_jury
              (normalize_jury_scores
                 (dict_set raw ''winner''
                    (remap_winner (py_get_default raw ''winner'' (JStr '''')) (jc_side_map jr)))
                 (jc_side_map jr)) = Inr False"
  shows "\<exists>r. run_debate e ca cb cfgs ma mb topic cond blind file = (file @ [r], None) \<and>
           ev_parsed (rec_evaluation r) = [] \<and>
           res_winner (rec_result r) = '''' \<and>
           res_winning_reason (rec_result r) = JStr '''' \<and>
           res_general (rec_result r) = JStr ''''"
proof -
  have ev: "\<exists>uf jr. evaluate_judge e topic cond (history_a s) (history_b s) blind c =
              Inr (uf, jr, None)" if "c \<in> set cfgs" for c
    using rejected that by (fastforce simp: evaluate_judge_def Let_def)
  then have "\<forall>c \<in> set cfgs.
      \<exists>r. evaluate_judge e topic cond (history_a s) (history_b s) blind c = Inr r"
    by blast
  from jury_loop_exists [OF this] obtain s' where
    loop: "jury_loop e topic cond blind cfgs s = Inr s'" and
    parsed: "jury_parsed_list s' =
       jury_parsed_list s @
       List.map_filter (judge_verdict e topic cond (history_a s) (history_b s) blind) cfgs"
    by blast
  have "\<forall>c \<in> set cfgs.
      judge_verdict e topic cond (history_a s) (history_b s) blind c = None"
    using ev by (fastforce simp: judge_verdict_def)
  then have "List.map_filter (judge_verdict e topic cond (history_a s) (history_b s) blind) cfgs
             = []"
    by (rule map_filter_none)
  moreover from rounds have "jury_parsed_list s = []"
    by (rule debate_rounds_trace)
  ultimately have empty: "jury_parsed_list s' = []"
    using parsed by simp
  have "run_debate e ca cb cfgs ma mb topic cond blind file =
          (file @ [build_record e cfgs ma mb topic cond s'], None)"
    using rounds loop by (rule run_debate_from_states)
  moreover have "final_winner [] = ''''"
    by (simp add: final_winner_def winners_def Let_def)
  ultimately show ?thesis
    by (simp add: build_record_fields empty)
qed

theorem no_winner_record_persisted_witness:
  "debate_rounds demo_env demo_debater demo_debater ''m'' ''m'' ''X'' '''' = Inr demo_state \<and>
   (\<exists>jr raw.
      run_jury_evaluation demo_env (cfg_client (judge_saying ''''))
        (cfg_model (judge_saying '''')) ''X'' ''''
        (history_a demo_state) (history_b demo_state) False = Inr jr \<and>
      parse_jury_response demo_env (or_empty (jc_raw_response jr)) = JObj raw \<and>
      is_valid_jury
        (normalize_jury_scores
           (dict_set raw ''winner''
              (remap_winner (py_get_default raw ''winner'' (JStr '''')) (jc_side_map jr)))
           (jc_side_map jr)) = Inr False) \<and>
   (\<exists>jr raw.
      run_jury_evaluation demo_env (cfg_client (judge_saying fenced_garbage))
        (cfg_model (judge_saying fenced_garbage)) ''X'' ''''
        (history_a demo_state) (history_b demo_state) False = Inr jr \<and>
      parse_jury_response demo_env (or_empty (jc_raw_response jr)) = JObj raw \<and>
      is_valid_jury
        (normalize_jury_scores
           (dict_set raw ''winner''
              (remap_winner (py_get_default raw ''winner'' (JStr '''')) (jc_side_map jr)))
           (jc_side_map jr)) = Inr False) \<and>
   (\<exists>r. run_debate demo_env demo_debater demo_debater
           [judge_saying '''', judge_saying fenced_garbage] ''m'' ''m'' ''X'' '''' False [] =
           ([] @ [r], None) \<and>
        ev_parsed (rec_evaluation r) = [] \<and>
        res_winner (rec_result r) = '''' \<and>
        res_winning_reason (rec_result r) = JStr '''' \<and>
        res_general (rec_result r) = JStr '''')"
proof -
  have silent: "\<exists>jr raw.
      run_jury_evaluation demo_env (cfg_client (judge_saying t)) (cfg_model (judge_saying t))
        ''X'' '''' (history_a demo_state) (history_b demo_state) False = Inr jr \<and>
      parse_jury_response demo_env (or_empty (jc_raw_response jr)) = JObj raw \<and>
      is_valid_jury
        (normalize_jury_scores
           (dict_set raw ''winner''
              (remap_winner (py_get_default raw ''winner'' (JStr '''')) (jc_side_map jr)))
           (jc_side_map jr)) = Inr False"
    if "parse_jury_response demo_env t = JObj []" for t
    apply (rule exI [of _ "\<lparr>jc_judge_model = ''judge'',
             jc_side_map = \<lparr>sm_A = ''A'', sm_B = ''B''\<rparr>,
             jc_prompt = ''X'', jc_raw_response = Some t, jc_usage = None\<rparr>"])
    apply (rule exI [of _ "[]"])
    using that demo_judge_call [of t False]
    apply (simp add: or_empty_def remap_winner_def py_get_default_def py_or_def
          normalize_jury_scores_def is_valid_jury_def py_get_def)
    done
  have e1: "parse_jury_response demo_env '''' = JObj []"
    by (simp add: parse_jury_response_def)
  have e2: "parse_jury_response demo_env fenced_garbage = JObj []"
    by (simp add: parse_jury_response_def demo_loads_garbage)
  have rejected: "\<forall>c \<in> set [judge_saying '''', judge_saying fenced_garbage]. \<exists>jr raw.
      run_jury_evaluation demo_env (cfg_client c) (cfg_model c) ''X'' ''''
        (history_a demo_state) (history_b demo_state) False = Inr jr \<and>
      parse_jury_response demo_env (or_empty (jc_raw_response jr)) = JObj raw \<and>
      is_valid_jury
        (normalize_jury_scores
           (dict_set raw ''winner''
              (remap_winner (py_get_default raw ''winner'' (JStr '''')) (jc_side_map jr)))
           (jc_side_map jr)) = Inr False"
    using silent [OF e1] silent [OF e2] by simp
  from no_winner_record_persisted [OF demo_rounds rejected, of "[]"] demo_rounds
    silent [OF e1] silent [OF e2]
  show ?thesis by (intro conjI)
qed

lemma demo_run:
  assumes "\<forall>c \<in> set cfgs. \<exists>r. evaluate_judge demo_env ''X'' '''' (history_a demo_state)
                                    (history_b demo_state) blind c = Inr r"
  shows "\<exists>s'. run_debate demo_env demo_debater demo_debater cfgs ''m'' ''m'' ''X'' '''' blind [] =
                ([build_record demo_env cfgs ''m'' ''m'' ''X'' '''' s'], None) \<and>
              jury_parsed_list s' =
                List.map_filter
                  (judge_verdict demo_env ''X'' '''' (history_a demo_state) (history_b demo_state)
                     blind) cfgs"
proof -
  from jury_loop_exists [OF assms] obtain s' where
    loop: "jury_loop demo_env ''X'' '''' blind cfgs demo_state = Inr s'" and
    parsed: "jury_parsed_list s' =
          jury_parsed_list demo_state @
          List.map_filter
            (judge_verdict demo_env ''X'' '''' (history_a demo_state) (history_b demo_state) blind)
            cfgs"
    by blast
  from parsed have "jury_parsed_list s' =
          List.map_filter
            (judge_verdict demo_env ''X'' '''' (history_a demo_state) (history_b demo_state) blind)
            cfgs"
    by (simp add: demo_state_fields)
  moreover from run_debate_from_states [OF demo_rounds loop, of "[]"] have
    "run_debate demo_env demo_debater demo_debater cfgs ''m'' ''m'' ''X'' '''' blind [] =
        ([build_record demo_env cfgs ''m'' ''m'' ''X'' '''' s'], None)"
    by simp
  ultimately show ?thesis
    by (intro exI [of _ s'] conjI)
qed

theorem representative_text_from_first_match_witness:
  "\<exists>file'. run_debate demo_env demo_debater demo_debater
        [judge_saying verdict_text_3, judge_saying verdict_text_1, judge_saying verdict_text_2]
        ''m'' ''m'' ''X'' '''' False [] = (file', None) \<and>
     (\<exists>r. file' = [] @ [r] \<and>
        ev_parsed (rec_evaluation r) = [verdict_3, verdict_1, verdict_2] \<and>
        ev_parsed (rec_evaluation r) \<noteq> [] \<and>
        (\<exists>pre p post. ev_parsed (rec_evaluation r) = pre @ p # post \<and>
           py_get p ''winner'' = JStr (res_winner (rec_result r)) \<and>
           (\<forall>q \<in> set pre. py_get q ''winner'' \<noteq> JStr (res_winner (rec_result r))) \<and>
           res_winning_reason (rec_result r) =
             py_or (py_get_default p ''reasoning'' (JStr '''')) (JStr '''') \<and>
           res_general (rec_result r) =
             py_or (py_get_default p ''general'' (JStr '''')) (JStr '''')) \<and>
        res_winner (rec_result r) = ''Side A'' \<and>
        res_winning_reason (rec_result r) = JStr ''first'' \<and>
        res_general (rec_result r) = JStr ''g1'')"
proof -
  let ?cfgs = "[judge_saying verdict_text_3, judge_saying verdict_text_1,
                judge_saying verdict_text_2]"
  have "\<forall>c \<in> set ?cfgs. \<exists>r. evaluate_judge demo_env ''X'' '''' (history_a demo_state)
                                    (history_b demo_state) False c = Inr r"
    by (simp add: demo_evaluate)
  from demo_run [OF this] obtain s' where
    run: "run_debate demo_env demo_debater demo_debater ?cfgs ''m'' ''m'' ''X'' '''' False [] =
            ([build_record demo_env ?cfgs ''m'' ''m'' ''X'' '''' s'], None)" and
    pl: "jury_parsed_list s' = [verdict_3, verdict_1, verdict_2]"
    by (auto simp: List.map_filter_simps demo_verdicts)
  from representative_text_from_first_match [OF run] obtain r where
    r: "[build_record demo_env ?cfgs ''m'' ''m'' ''X'' '''' s'] = [] @ [r]" and
    first: "ev_parsed (rec_evaluation r) \<noteq> [] \<longrightarrow>
        (\<exists>pre p post. ev_parsed (rec_evaluation r) = pre @ p # post \<and>
           py_get p ''winner'' = JStr (res_winner (rec_result r)) \<and>
           (\<forall>q \<in> set pre. py_get q ''winner'' \<noteq> JStr (res_winner (rec_result r))) \<and>
           res_winning_reason (rec_result r) =
             py_or (py_get_default p ''reasoning'' (JStr '''')) (JStr '''') \<and>
           res_general (rec_result r) =
             py_or (py_get_default p ''general'' (JStr '''')) (JStr ''''))"
    by blast
  from r have req: "r = build_record demo_env ?cfgs ''m'' ''m'' ''X'' '''' s'"
    by simp
  have parsed: "ev_parsed (rec_evaluation r) = [verdict_3, verdict_1, verdict_2]"
    unfolding req by (simp add: build_record_fields pl)
  have fw: "final_winner [verdict_3, verdict_1, verdict_2] = ''Side A''"
    by (simp add: final_winner_def count_winners_def winners_def py_get_def Let_def
          verdict_1_def verdict_2_def verdict_3_def)
  have texts: "representative ''Side A'' [verdict_3, verdict_1, verdict_2] =
                 (JStr ''first'', JStr ''g1'')"
    by (simp add: py_get_def py_get_default_def py_or_def
          verdict_1_def verdict_2_def verdict_3_def)
  have vals: "res_winner (rec_result r) = ''Side A''"
    "res_winning_reason (rec_result r) = JStr ''first''"
    "res_general (rec_result r) = JStr ''g1''"
    unfolding req by (simp_all only: build_record_fields pl fw texts fst_conv snd_conv)
  from parsed have ne: "ev_parsed (rec_evaluation r) \<noteq> []"
    by simp
  with first have
    "\<exists>pre p post. ev_parsed (rec_evaluation r) = pre @ p # post \<and>
           py_get p ''winner'' = JStr (res_winner (rec_result r)) \<and>
           (\<forall>q \<in> set pre. py_get q ''winner'' \<noteq> JStr (res_winner (rec_result r))) \<and>
           res_winning_reason (rec_result r) =
             py_or (py_get_default p ''reasoning'' (JStr '''')) (JStr '''') \<and>
           res_general (rec_result r) =
             py_or (py_get_default p ''general'' (JStr '''')) (JStr '''')"
    by (rule mp)
  with parsed ne vals have
    "\<exists>r'. [r] = [] @ [r'] \<and>
        ev_parsed (rec_evaluation r') = [verdict_3, verdict_1, verdict_2] \<and>
        ev_parsed (rec_evaluation r') \<noteq> [] \<and>
        (\<exists>pre p post. ev_parsed (rec_evaluation r') = pre @ p # post \<and>
           py_get p ''winner'' = JStr (res_winner (rec_result r')) \<and>
           (\<forall>q \<in> set pre. py_get q ''winner'' \<noteq> JStr (res_winner (rec_result r'))) \<and>
           res_winning_reason (rec_result r') =
             py_or (py_get_default p ''reasoning'' (JStr '''')) (JStr '''') \<and>
           res_general (rec_result r') =
             py_or (py_get_default p ''general'' (JStr '''')) (JStr '''')) \<and>
        res_winner (rec_result r') = ''Side A'' \<and>
        res_winning_reason (rec_result r') = JStr ''first'' \<and>
        res_general (rec_result r') = JStr ''g1''"
    by (intro exI [of _ r] conjI) simp_all
  moreover from run have "run_debate demo_env demo_debater demo_debater ?cfgs
        ''m'' ''m'' ''X'' '''' False [] = ([r], None)"
    unfolding req .
  ultimately show ?thesis
    by (intro exI [of _ "[r]"] conjI)
qed

section \<open>Empty and unparsable judge responses\<close>

lemma map_filter_append:
  "List.map_filter f (xs @ ys) = List.map_filter f xs @ List.map_filter f ys"
  by (simp add: List.map_filter_def)

text \<open>
  Claim C7. Let a judge's call return, with a response that is empty or that the decoder
  rejects after the fence and the language tag are stripped. Then parsing gives the empty
  dict, the pass of the judge loop for this judge ends with no exception and keeps no
  verdict, and a judge loop with this judge keeps exactly one verdict fewer than the same
  loop in which that judge is replaced by one whose verdict is kept.
\<close>

theorem unparsable_response_contributes_nothing:
  assumes call: "run_jury_evaluation e (cfg_client c) (cfg_model c) topic cond
                   (history_a s) (history_b s) blind = Inr jr"
      and bad: "or_empty (jc_raw_response jr) = [] \<or>
                json_loads e (clean_jury_text (or_empty (jc_raw_response jr))) = None"
      and good: "evaluate_judge e topic cond (history_a s) (history_b s) blind c' =
                   Inr (uf', jr', Some v)"
      and loop: "jury_loop e topic cond blind (pre @ c' # post) s = Inr s_good"
  shows "parse_jury_response e (or_empty (jc_raw_response jr)) = JObj [] \<and>
         evaluate_judge e topic cond (history_a s) (history_b s) blind c =
           Inr (extract_usage_fields (jc_usage jr), jr, None) \<and>
         (\<exists>s_bad. jury_loop e topic cond blind (pre @ c # post) s = Inr s_bad \<and>
                  length (jury_parsed_list s_bad) + 1 = length (jury_parsed_list s_good))"
proof -
  let ?jv = "judge_verdict e topic cond (history_a s) (history_b s) blind"
  have p: "parse_jury_response e (or_empty (jc_raw_response jr)) = JObj []"
    using call bad by (rule evaluate_judge_unparsable(1))
  have ev: "evaluate_judge e topic cond (history_a s) (history_b s) blind c =
           Inr (extract_usage_fields (jc_usage jr), jr, None)"
    using call bad by (rule evaluate_judge_unparsable(2))
  from jury_loop_result [OF loop] have
    pg: "jury_parsed_list s_good = jury_parsed_list s @ List.map_filter ?jv (pre @ c' # post)" and
    all: "\<forall>x \<in> set (pre @ c' # post).
            \<exists>r. evaluate_judge e topic cond (history_a s) (history_b s) blind x = Inr r"
    by simp_all
  from all ev have
    "\<forall>x \<in> set (pre @ c # post).
       \<exists>r. evaluate_judge e topic cond (history_a s) (history_b s) blind x = Inr r"
    by auto
  from jury_loop_exists [OF this] obtain s_bad where
    lb: "jury_loop e topic cond blind (pre @ c # post) s = Inr s_bad" and
    pb: "jury_parsed_list s_bad = jury_parsed_list s @ List.map_filter ?jv (pre @ c # post)"
    by blast
  have "?jv c = None" "?jv c' = Some v"
    by (simp_all add: judge_verdict_def ev good)
  then have "length (jury_parsed_list s_bad) + 1 = length (jury_parsed_list s_good)"
    by (simp add: pg pb map_filter_append List.map_filter_simps)
  with lb p ev show ?thesis by blast
qed

section \<open>De-blinding\<close>






lemma demo_evaluate_garbage:
  "evaluate_judge demo_env ''X'' '''' (history_a demo_state) (history_b demo_state) False
      (judge_saying fenced_garbage) =
    Inr (extract_usage_fields None,
         \<lparr>jc_judge_model = ''judge'', jc_side_map = \<lparr>sm_A = ''A'', sm_B = ''B''\<rparr>,
          jc_prompt = ''X'', jc_raw_response = Some fenced_garbage, jc_usage = None\<rparr>, None)"
  using evaluate_judge_unparsable(2) [OF demo_judge_call [of fenced_garbage False]]
  by (simp add: or_empty_def demo_loads_garbage)

theorem unparsable_response_contributes_nothing_witness:
  "\<exists>s_good.
     run_jury_evaluation demo_env (cfg_client (judge_saying fenced_garbage))
       (cfg_model (judge_saying fenced_garbage)) ''X'' ''''
       (history_a demo_state) (history_b demo_state) False =
       Inr \<lparr>jc_judge_model = ''judge'', jc_side_map = \<lparr>sm_A = ''A'', sm_B = ''B''\<rparr>,
            jc_prompt = ''X'', jc_raw_response = Some fenced_garbage, jc_usage = None\<rparr> \<and>
     json_loads demo_env (clean_jury_text fenced_garbage) = None \<and>
     evaluate_judge demo_env ''X'' '''' (history_a demo_state) (history_b demo_state) False
       (judge_saying verdict_text_2) =
       Inr (extract_usage_fields None,
            \<lparr>jc_judge_model = ''judge'', jc_side_map = \<lparr>sm_A = ''A'', sm_B = ''B''\<rparr>,
             jc_prompt = ''X'', jc_raw_response = Some verdict_text_2, jc_usage = None\<rparr>,
            Some verdict_2) \<and>
     jury_loop demo_env ''X'' '''' False
       ([judge_saying verdict_text_1] @ judge_saying verdict_text_2 # [judge_saying verdict_text_3])
       demo_state = Inr s_good \<and>
     parse_jury_response demo_env fenced_garbage = JObj [] \<and>
     evaluate_judge demo_env ''X'' '''' (history_a demo_state) (history_b demo_state) False
       (judge_saying fenced_garbage) =
       Inr (extract_usage_fields None,
            \<lparr>jc_judge_model = ''judge'', jc_side_map = \<lparr>sm_A = ''A'', sm_B = ''B''\<rparr>,
             jc_prompt = ''X'', jc_raw_response = Some fenced_garbage, jc_usage = None\<rparr>, None) \<and>
     (\<exists>s_bad. jury_loop demo_env ''X'' '''' False
          ([judge_saying verdict_text_1] @ judge_saying fenced_garbage #
           [judge_saying verdict_text_3]) demo_state = Inr s_bad \<and>
        length (jury_parsed_list s_bad) + 1 = length (jury_parsed_list s_good))"
proof -
  let ?jr = "\<lparr>jc_judge_model = ''judge'', jc_side_map = \<lparr>sm_A = ''A'', sm_B = ''B''\<rparr>,
             jc_prompt = ''X'', jc_raw_response = Some fenced_garbage, jc_usage = None\<rparr>"
  have call: "run_jury_evaluation demo_env (cfg_client (judge_saying fenced_garbage))
       (cfg_model (judge_saying fenced_garbage)) ''X'' ''''
       (history_a demo_state) (history_b demo_state) False = Inr ?jr"
    using demo_judge_call [of fenced_garbage False] by simp
  have resp: "or_empty (jc_raw_response ?jr) = fenced_garbage"
    by (simp add: or_empty_def)
  have bad: "or_empty (jc_raw_response ?jr) = [] \<or>
             json_loads demo_env (clean_jury_text (or_empty (jc_raw_response ?jr))) = None"
    by (simp add: or_empty_def demo_loads_garbage)
  have "\<forall>x \<in> set ([judge_saying verdict_text_1] @ judge_saying verdict_text_2 #
                     [judge_saying verdict_text_3]).
          \<exists>r. evaluate_judge demo_env ''X'' '''' (history_a demo_state) (history_b demo_state)
                 False x = Inr r"
    by (simp add: demo_evaluate)
  from jury_loop_total [OF this] obtain s_good where
    loop: "jury_loop demo_env ''X'' '''' False
       ([judge_saying verdict_text_1] @ judge_saying verdict_text_2 # [judge_saying verdict_text_3])
       demo_state = Inr s_good"
    by blast
  note T = unparsable_response_contributes_nothing [OF call bad demo_evaluate(2) loop]
  have p: "parse_jury_response demo_env fenced_garbage = JObj []"
    using T [THEN conjunct1] by (simp add: or_empty_def)
  have ev: "evaluate_judge demo_env ''X'' '''' (history_a demo_state) (history_b demo_state) False
       (judge_saying fenced_garbage) = Inr (extract_usage_fields None, ?jr, None)"
    using T [THEN conjunct2, THEN conjunct1] by simp
  have ex: "\<exists>s_bad. jury_loop demo_env ''X'' '''' False
          ([judge_saying verdict_text_1] @ judge_saying fenced_garbage #
           [judge_saying verdict_text_3]) demo_state = Inr s_bad \<and>
        length (jury_parsed_list s_bad) + 1 = length (jury_parsed_list s_good)"
    using T [THEN conjunct2, THEN conjunct2] .
  show ?thesis
    apply (rule exI [of _ s_good])
    apply (intro conjI)
          apply (rule call)
         apply (rule demo_loads_garbage)
        apply (rule demo_evaluate(2))
       apply (rule loop)
      apply (rule p)
     apply (rule ev)
    apply (rule ex)
    done
qed






section \<open>A winner that cannot be hashed\<close>

lemma is_valid_jury_hashable:
  assumes "hashable (py_get p ''winner'')"
  shows "is_valid_jury p =
           Inr (py_get p ''winner'' \<in> {JStr ''Side A'', JStr ''Side B''} \<and>
                py_get p ''total_score_A'' \<noteq> JNull \<and> py_get p ''total_score_B'' \<noteq> JNull)"
  using assms by (auto simp: is_valid_jury_def py_get_def)

text \<open>
  Claim C5. On verdicts whose winner can be hashed, \<open>is_valid_jury\<close> is the predicate
  of the claim and the loop skips what it rejects (\<open>is_valid_jury_True\<close>,
  \<open>is_valid_jury_hashable\<close>). A judge that answers with a list as winner is not
  skipped: the membership test raises, the exception leaves \<open>run_debate\<close> and no record
  is written.
\<close>

theorem list_winner_aborts_run:
  "parse_jury_response demo_env list_winner_text = JObj list_winner_verdict \<and>
   is_valid_jury list_winner_verdict = Inl TypeError \<and>
   run_debate demo_env demo_debater demo_debater [judge_saying list_winner_text]
     ''m'' ''m'' ''X'' '''' False [] = ([], Some TypeError)"
proof -
  have "is_valid_jury list_winner_verdict = Inl TypeError"
    by (simp add: is_valid_jury_def list_winner_verdict_def py_get_def)
  moreover have "run_debate demo_env demo_debater demo_debater [judge_saying list_winner_text]
     ''m'' ''m'' ''X'' '''' False [] = ([], Some TypeError)"
    by (simp add: run_debate_def demo_rounds judge_step_def demo_evaluate_list_winner)
  ultimately show ?thesis
    using demo_parse(4) by (intro conjI)
qed

section \<open>Backend failures\<close>

text \<open>
  Claim C1 as stated fails: with a single judge whose backend call raises, the run ends
  with the exception and the output file stays empty.
\<close>

theorem judge_backend_failure_counterexample:
  "evaluate_judge demo_env ''X'' '''' (history_a demo_state) (history_b demo_state) False
      judge_down = Inl BackendError \<and>
   run_debate demo_env demo_debater demo_debater [judge_down] ''m'' ''m'' ''X'' '''' False [] =
     ([], Some BackendError)"
proof -
  have "run_debate demo_env demo_debater demo_debater [judge_down] ''m'' ''m'' ''X'' '''' False [] =
     ([], Some BackendError)"
    by (simp add: run_debate_def demo_rounds judge_step_def demo_evaluate_down)
  with demo_evaluate_down show ?thesis
    by (intro conjI)
qed

lemma turn_a_raises:
  assumes "render_prompt ta
             (dict_update [(''TOPIC'', Some topic), (''CONDITIONS'', Some cond)]
                (build_opponent_variables i (history_b s) ''MODEL_B'')) = Inr pa"
      and "ca ma (messages_a s @ [\<lparr>msg_role = ''user'', msg_content = pa\<rparr>]) = Inl err"
  shows "turn_a ca ma topic cond i ta s = Inl err"
  using assms by (simp add: turn_a_def call_model_def Let_def)

lemma turn_b_raises:
  assumes "render_prompt tb
             (dict_update [(''TOPIC'', Some topic), (''CONDITIONS'', Some cond)]
                (build_opponent_variables i (history_a s) ''MODEL_A'')) = Inr pb"
      and "cb mb (messages_b s @ [\<lparr>msg_role = ''user'', msg_content = pb\<rparr>]) = Inl err"
  shows "turn_b cb mb topic cond i tb s = Inl err"
  using assms by (simp add: turn_b_def call_model_def Let_def)

lemma round_loop_raises:
  assumes "round_loop e ca cb ma mb topic cond i played s = Inr s0"
      and "run_round e ca cb ma mb topic cond (i + int (length played)) f s0 = Inl err"
  shows "round_loop e ca cb ma mb topic cond i (played @ f # later) s = Inl err"
  using assms
proof (induction played arbitrary: i s)
  case Nil
  then show ?case by simp
next
  case (Cons g played)
  from Cons.prems(1) obtain s1 where
    step: "run_round e ca cb ma mb topic cond i g s = Inr s1" and
    rest: "round_loop e ca cb ma mb topic cond (i + 1) played s1 = Inr s0"
    by (auto split: sum.splits)
  from Cons.prems(2) have
    "run_round e ca cb ma mb topic cond (i + 1 + int (length played)) f s0 = Inl err"
    by (simp add: algebra_simps)
  from Cons.IH [OF rest this] step show ?case by simp
qed

text \<open>
  Claim C1, amended. No backend failure is caught. When the rounds complete, the judges
  before some judge complete and that judge's backend call raises \<open>BackendError\<close>, the
  run ends with this exception and the output file is as it was, whatever judges follow.
  When the rounds before some round complete and in that round the backend call of side A
  raises \<open>BackendError\<close>, or side A's turn completes and the backend call of side B
  raises it, the run ends with this exception and the output file is as it was, whatever
  rounds and judges follow.
\<close>

theorem backend_failure_aborts_run:
  assumes rounds: "debate_rounds e ca cb ma mb topic cond = Inr s"
      and before: "jury_loop e topic cond blind pre s = Inr s1"
      and tmpl: "load_prompt e ''judge/judge_evaluation.txt'' = Inr t"
      and req: "judge_request t topic cond (history_a s) (history_b s) blind = Inr (smap, p)"
      and down: "cfg_client c (cfg_model c) (judge_messages p) = Inl BackendError"
      and sys: "load_prompt e' ''system.txt'' = Inr sp"
      and files: "rounds = played @ f # later"
      and earlier: "round_loop e' ca' cb' ma' mb' topic' cond' 1 played (initial_state sp) = Inr s0"
      and tmpl_a: "load_prompt e' (''model_a/'' @ f) = Inr ta"
      and tmpl_b: "load_prompt e' (''model_b/'' @ f) = Inr tb"
      and debater:
        "(\<exists>pa. render_prompt ta
                 (dict_update [(''TOPIC'', Some topic'), (''CONDITIONS'', Some cond')]
                    (build_opponent_variables (1 + int (length played)) (history_b s0)
                       ''MODEL_B'')) = Inr pa \<and>
               ca' ma' (messages_a s0 @ [\<lparr>msg_role = ''user'', msg_content = pa\<rparr>]) =
                 Inl BackendError) \<or>
         (\<exists>sA pb. turn_a ca' ma' topic' cond' (1 + int (length played)) ta s0 = Inr sA \<and>
               render_prompt tb
                 (dict_update [(''TOPIC'', Some topic'), (''CONDITIONS'', Some cond')]
                    (build_opponent_variables (1 + int (length played)) (history_a sA)
                       ''MODEL_A'')) = Inr pb \<and>
               cb' mb' (messages_b sA @ [\<lparr>msg_role = ''user'', msg_content = pb\<rparr>]) =
                 Inl BackendError)"
  shows "run_debate e ca cb (pre @ c # post) ma mb topic cond blind file =
           (file, Some BackendError) \<and>
         run_debate e' ca' cb' cfgs' ma' mb' topic' cond' blind' file' =
           (file', Some BackendError)"
proof -
  have "evaluate_judge e topic cond (history_a s) (history_b s) blind c = Inl BackendError"
    using tmpl req down
    by (simp add: evaluate_judge_def run_jury_evaluation_def call_model_def)
  with before have "jury_loop e topic cond blind (pre @ c # post) s = Inl BackendError"
    by (rule jury_loop_raises)
  with rounds have judge: "run_debate e ca cb (pre @ c # post) ma mb topic cond blind file =
           (file, Some BackendError)"
    by (simp add: run_debate_def)
  from debater have
    "run_round e' ca' cb' ma' mb' topic' cond' (1 + int (length played)) f s0 = Inl BackendError"
  proof
    assume "\<exists>pa. render_prompt ta
                 (dict_update [(''TOPIC'', Some topic'), (''CONDITIONS'', Some cond')]
                    (build_opponent_variables (1 + int (length played)) (history_b s0)
                       ''MODEL_B'')) = Inr pa \<and>
               ca' ma' (messages_a s0 @ [\<lparr>msg_role = ''user'', msg_content = pa\<rparr>]) =
                 Inl BackendError"
    then obtain pa where
      "render_prompt ta
         (dict_update [(''TOPIC'', Some topic'), (''CONDITIONS'', Some cond')]
            (build_opponent_variables (1 + int (length played)) (history_b s0) ''MODEL_B'')) =
         Inr pa"
      "ca' ma' (messages_a s0 @ [\<lparr>msg_role = ''user'', msg_content = pa\<rparr>]) = Inl BackendError"
      by blast
    then have "turn_a ca' ma' topic' cond' (1 + int (length played)) ta s0 = Inl BackendError"
      by (rule turn_a_raises)
    with tmpl_a tmpl_b show ?thesis
      by (simp add: run_round_def)
  next
    assume "\<exists>sA pb. turn_a ca' ma' topic' cond' (1 + int (length played)) ta s0 = Inr sA \<and>
               render_prompt tb
                 (dict_update [(''TOPIC'', Some topic'), (''CONDITIONS'', Some cond')]
                    (build_opponent_variables (1 + int (length played)) (history_a sA)
                       ''MODEL_A'')) = Inr pb \<and>
               cb' mb' (messages_b sA @ [\<lparr>msg_role = ''user'', msg_content = pb\<rparr>]) =
                 Inl BackendError"
    then obtain sA pb where
      a: "turn_a ca' ma' topic' cond' (1 + int (length played)) ta s0 = Inr sA" and
      b: "render_prompt tb
         (dict_update [(''TOPIC'', Some topic'), (''CONDITIONS'', Some cond')]
            (build_opponent_variables (1 + int (length played)) (history_a sA) ''MODEL_A'')) =
         Inr pb"
      "cb' mb' (messages_b sA @ [\<lparr>msg_role = ''user'', msg_content = pb\<rparr>]) = Inl BackendError"
      by blast
    from b have "turn_b cb' mb' topic' cond' (1 + int (length played)) tb sA = Inl BackendError"
      by (rule turn_b_raises)
    with tmpl_a tmpl_b a show ?thesis
      by (simp add: run_round_def)
  qed
  with earlier have
    "round_loop e' ca' cb' ma' mb' topic' cond' 1 (played @ f # later) (initial_state sp) =
       Inl BackendError"
    by (rule round_loop_raises)
  with sys files have "debate_rounds e' ca' cb' ma' mb' topic' cond' = Inl BackendError"
    by (simp add: debate_rounds_def)
  then have
    "run_debate e' ca' cb' cfgs' ma' mb' topic' cond' blind' file' = (file', Some BackendError)"
    by (simp add: run_debate_def)
  with judge show ?thesis
    by (intro conjI)
qed

theorem backend_failure_aborts_run_witness:
  "\<exists>s1 s0 sA.
     debate_rounds demo_env demo_debater demo_debater ''m'' ''m'' ''X'' '''' = Inr demo_state \<and>
     jury_loop demo_env ''X'' '''' False [judge_saying verdict_text_1] demo_state = Inr s1 \<and>
     load_prompt demo_env ''judge/judge_evaluation.txt'' = Inr ''{{TOPIC}}'' \<and>
     judge_request ''{{TOPIC}}'' ''X'' '''' (history_a demo_state) (history_b demo_state) False =
       Inr (\<lparr>sm_A = ''A'', sm_B = ''B''\<rparr>, ''X'') \<and>
     cfg_client judge_down (cfg_model judge_down) (judge_messages ''X'') = Inl BackendError \<and>
     load_prompt demo_env ''system.txt'' = Inr ''{{TOPIC}}'' \<and>
     rounds = [''round1_opening.txt''] @ ''round2_rebuttal.txt'' #
                [''round3_assumptions.txt'', ''round4_closing.txt''] \<and>
     round_loop demo_env demo_debater (debater_down_after 1) ''m'' ''m'' ''X'' '''' 1
       [''round1_opening.txt''] (initial_state ''{{TOPIC}}'') = Inr s0 \<and>
     load_prompt demo_env (''model_a/'' @ ''round2_rebuttal.txt'') = Inr ''{{TOPIC}}'' \<and>
     load_prompt demo_env (''model_b/'' @ ''round2_rebuttal.txt'') = Inr ''{{TOPIC}}'' \<and>
     turn_a demo_debater ''m'' ''X'' '''' (1 + int (length [''round1_opening.txt'']))
       ''{{TOPIC}}'' s0 = Inr sA \<and>
     render_prompt ''{{TOPIC}}''
       (dict_update [(''TOPIC'', Some ''X''), (''CONDITIONS'', Some '''')]
          (build_opponent_variables (1 + int (length [''round1_opening.txt''])) (history_a sA)
             ''MODEL_A'')) = Inr ''X'' \<and>
     debater_down_after 1 ''m'' (messages_b sA @ [\<lparr>msg_role = ''user'', msg_content = ''X''\<rparr>]) =
       Inl BackendError \<and>
     run_debate demo_env demo_debater demo_debater
       ([judge_saying verdict_text_1] @ judge_down # [judge_saying verdict_text_3])
       ''m'' ''m'' ''X'' '''' False [] = ([], Some BackendError) \<and>
     run_debate demo_env demo_debater (debater_down_after 1) [judge_saying verdict_text_1]
       ''m'' ''m'' ''X'' '''' False [] = ([], Some BackendError)"
proof -
  have "\<forall>x \<in> set [judge_saying verdict_text_1].
          \<exists>r. evaluate_judge demo_env ''X'' '''' (history_a demo_state) (history_b demo_state)
                 False x = Inr r"
    by (simp add: demo_evaluate)
  from jury_loop_total [OF this] obtain s1 where
    before: "jury_loop demo_env ''X'' '''' False [judge_saying verdict_text_1] demo_state = Inr s1"
    by blast
  have tmpl: "load_prompt demo_env ''judge/judge_evaluation.txt'' = Inr ''{{TOPIC}}''"
    by (simp add: load_prompt_def demo_env_def)
  have req: "judge_request ''{{TOPIC}}'' ''X'' '''' (history_a demo_state) (history_b demo_state)
               False = Inr (\<lparr>sm_A = ''A'', sm_B = ''B''\<rparr>, ''X'')"
    by (simp add: judge_request_def startswith_def Let_def)
  have down: "cfg_client judge_down (cfg_model judge_down) (judge_messages ''X'') =
                Inl BackendError"
    by (simp add: judge_down_def)
  have sys: "load_prompt demo_env ''system.txt'' = Inr ''{{TOPIC}}''"
    by (simp add: load_prompt_def demo_env_def)
  have files: "rounds = [''round1_opening.txt''] @ ''round2_rebuttal.txt'' #
                [''round3_assumptions.txt'', ''round4_closing.txt'']"
    by (simp add: rounds_def)
  have tmpl_a: "load_prompt demo_env (''model_a/'' @ ''round2_rebuttal.txt'') = Inr ''{{TOPIC}}''"
    by (simp add: load_prompt_def demo_env_def)
  have tmpl_b: "load_prompt demo_env (''model_b/'' @ ''round2_rebuttal.txt'') = Inr ''{{TOPIC}}''"
    by (simp add: load_prompt_def demo_env_def)
  have "\<exists>s0 sA.
     round_loop demo_env demo_debater (debater_down_after 1) ''m'' ''m'' ''X'' '''' 1
       [''round1_opening.txt''] (initial_state ''{{TOPIC}}'') = Inr s0 \<and>
     turn_a demo_debater ''m'' ''X'' '''' (1 + int (length [''round1_opening.txt'']))
       ''{{TOPIC}}'' s0 = Inr sA \<and>
     render_prompt ''{{TOPIC}}''
       (dict_update [(''TOPIC'', Some ''X''), (''CONDITIONS'', Some '''')]
          (build_opponent_variables (1 + int (length [''round1_opening.txt''])) (history_a sA)
             ''MODEL_A'')) = Inr ''X'' \<and>
     debater_down_after 1 ''m'' (messages_b sA @ [\<lparr>msg_role = ''user'', msg_content = ''X''\<rparr>]) =
       Inl BackendError"
    by (simp add: load_prompt_def demo_env_def run_round_def turn_a_def turn_b_def
          build_opponent_variables_def dict_update_def startswith_def demo_debater_def
          debater_down_after_def call_model_def initial_state_def add_usage_def Let_def
          or_empty_def extract_usage_fields_def str_int_def digits.simps)
  then obtain s0 sA where
    earlier: "round_loop demo_env demo_debater (debater_down_after 1) ''m'' ''m'' ''X'' '''' 1
       [''round1_opening.txt''] (initial_state ''{{TOPIC}}'') = Inr s0" and
    a: "turn_a demo_debater ''m'' ''X'' '''' (1 + int (length [''round1_opening.txt'']))
       ''{{TOPIC}}'' s0 = Inr sA" and
    b: "render_prompt ''{{TOPIC}}''
       (dict_update [(''TOPIC'', Some ''X''), (''CONDITIONS'', Some '''')]
          (build_opponent_variables (1 + int (length [''round1_opening.txt''])) (history_a sA)
             ''MODEL_A'')) = Inr ''X''" and
    d: "debater_down_after 1 ''m'' (messages_b sA @ [\<lparr>msg_role = ''user'', msg_content = ''X''\<rparr>]) =
       Inl BackendError"
    by blast
  have debater:
    "(\<exists>pa. render_prompt ''{{TOPIC}}''
             (dict_update [(''TOPIC'', Some ''X''), (''CONDITIONS'', Some '''')]
                (build_opponent_variables (1 + int (length [''round1_opening.txt'']))
                   (history_b s0) ''MODEL_B'')) = Inr pa \<and>
           demo_debater ''m'' (messages_a s0 @ [\<lparr>msg_role = ''user'', msg_content = pa\<rparr>]) =
             Inl BackendError) \<or>
     (\<exists>sA pb. turn_a demo_debater ''m'' ''X'' '''' (1 + int (length [''round1_opening.txt'']))
             ''{{TOPIC}}'' s0 = Inr sA \<and>
           render_prompt ''{{TOPIC}}''
             (dict_update [(''TOPIC'', Some ''X''), (''CONDITIONS'', Some '''')]
                (build_opponent_variables (1 + int (length [''round1_opening.txt'']))
                   (history_a sA) ''MODEL_A'')) = Inr pb \<and>
           debater_down_after 1 ''m''
             (messages_b sA @ [\<lparr>msg_role = ''user'', msg_content = pb\<rparr>]) = Inl BackendError)"
    apply (rule disjI2)
    apply (rule exI [of _ sA])
    apply (rule exI [of _ "''X''"])
    apply (intro conjI)
      apply (rule a)
     apply (rule b)
    apply (rule d)
    done
  note T = backend_failure_aborts_run [OF demo_rounds before tmpl req down sys files earlier
             tmpl_a tmpl_b debater,
             of "[judge_saying verdict_text_3]" "[]" "[judge_saying verdict_text_1]" False "[]"]
  show ?thesis
    apply (rule exI [of _ s1])
    apply (rule exI [of _ s0])
    apply (rule exI [of _ sA])
    apply (intro conjI)
                  apply (rule demo_rounds)
                 apply (rule before)
                apply (rule tmpl)
               apply (rule req)
              apply (rule down)
             apply (rule sys)
            apply (rule files)
           apply (rule earlier)
          apply (rule tmpl_a)
         apply (rule tmpl_b)
        apply (rule a)
       apply (rule b)
      apply (rule d)
     apply (rule T [THEN conjunct1])
    apply (rule T [THEN conjunct2])
    done
qed

end
